theory Spec2Isabelle
  imports Complex_Main "HOL-Library.Word"
begin

unbundle bit_operations_syntax

section \<open>JavaScript strings\<close>

text \<open>
  A JavaScript string is a sequence of UTF-16 code units; \<open>length\<close>, \<open>charCodeAt\<close>,
  \<open>split\<close>, \<open>trim\<close> and the regular expressions of the sources all work on code units.
  A string is modelled as the list of its code units, each a natural number, and a
  literal of the sources is written \<open>js ''...''\<close>.
\<close>

type_synonym jsstring = "nat list"

definition js :: "string \<Rightarrow> jsstring" where
  "js s = map of_char s"

text \<open>
  White space as \<open>String.prototype.trim\<close> and the class \<open>\s\<close> read it: tab, line feed,
  vertical tab, form feed, carriage return, space, no-break space, the Unicode space
  separators, the line and paragraph separators and the byte order mark.
\<close>

definition is_space :: "nat \<Rightarrow> bool" where
  "is_space c =
     (c = 9 \<or> c = 10 \<or> c = 11 \<or> c = 12 \<or> c = 13 \<or> c = 32 \<or> c = 160 \<or> c = 5760
      \<or> (8192 \<le> c \<and> c \<le> 8202) \<or> c = 8232 \<or> c = 8233 \<or> c = 8239 \<or> c = 8287
      \<or> c = 12288 \<or> c = 65279)"

definition is_letter :: "nat \<Rightarrow> bool" where
  "is_letter c = ((65 \<le> c \<and> c \<le> 90) \<or> (97 \<le> c \<and> c \<le> 122))"

definition is_digit :: "nat \<Rightarrow> bool" where
  "is_digit c = (48 \<le> c \<and> c \<le> 57)"

definition trim :: "jsstring \<Rightarrow> jsstring" where
  "trim s = rev (dropWhile is_space (rev (dropWhile is_space s)))"

text \<open>
  \<open>s.split(/[,\n]/)\<close>: the pieces between the separators, in order. The empty string
  gives one empty piece, and a separator at either end gives an empty piece there.
\<close>

fun split_on :: "(nat \<Rightarrow> bool) \<Rightarrow> jsstring \<Rightarrow> jsstring list" where
  "split_on sep [] = [[]]"
| "split_on sep (c # cs) =
     (if sep c then [] # split_on sep cs
      else (case split_on sep cs of
              [] \<Rightarrow> [[c]]
            | piece # pieces \<Rightarrow> (c # piece) # pieces))"

definition comma_or_newline :: "nat \<Rightarrow> bool" where
  "comma_or_newline c = (c = 44 \<or> c = 10)"

text \<open>
  The decimal numeral of a non-negative integer, as a template literal renders
  \<open>Date.now()\<close> (a count of milliseconds, far below the \<open>1e21\<close> at which JavaScript
  switches to exponent notation).
\<close>

fun decimal :: "nat \<Rightarrow> jsstring" where
  "decimal n = (if n < 10 then [48 + n] else decimal (n div 10) @ [48 + n mod 10])"

definition digits_value :: "jsstring \<Rightarrow> nat" where
  "digits_value s = foldl (\<lambda>acc d. 10 * acc + (d - 48)) 0 s"


section \<open>Plain objects used as dictionaries\<close>

text \<open>
  \<open>resultsStore\<close>, \<open>blockchainRecords\<close> and \<open>mockGraphData\<close> are object literals \<open>{}\<close> used
  as dictionaries. Such an object is modelled by the list of its own properties in the
  order of their creation.

  \<^item> A write \<open>obj[k] = v\<close> replaces the value of an own property in place and appends a
    new property otherwise. The one key for which this is not so is \<open>__proto__\<close>, whose
    assignment replaces the prototype of the object and creates no property; the
    operations below say where they can meet it.
  \<^item> A read \<open>obj[k]\<close> finds the own property first and then the members that every
    object literal inherits from \<open>Object.prototype\<close>, all of them truthy; only a key
    that is neither reads as \<open>undefined\<close>.
  \<^item> \<open>Object.keys\<close> and \<open>Object.values\<close> list the own properties whose key is an array
    index (the decimal numeral of an integer below \<open>2^32 - 1\<close>) in ascending numeric
    order, and after them the other properties in the order of their creation.
\<close>

type_synonym 'a jsobject = "(jsstring \<times> 'a) list"

datatype 'a member = Own 'a | Inherited | Undefined

definition object_prototype_names :: "jsstring list" where
  "object_prototype_names =
     [js ''constructor'', js ''__defineGetter__'', js ''__defineSetter__'',
      js ''hasOwnProperty'', js ''__lookupGetter__'', js ''__lookupSetter__'',
      js ''isPrototypeOf'', js ''propertyIsEnumerable'', js ''toString'', js ''valueOf'',
      js ''__proto__'', js ''toLocaleString'']"

definition js_get :: "'a jsobject \<Rightarrow> jsstring \<Rightarrow> 'a member" where
  "js_get obj k =
     (case map_of obj k of
        Some v \<Rightarrow> Own v
      | None \<Rightarrow> if k \<in> set object_prototype_names then Inherited else Undefined)"

primrec js_put :: "'a jsobject \<Rightarrow> jsstring \<Rightarrow> 'a \<Rightarrow> 'a jsobject" where
  "js_put [] k v = [(k, v)]"
| "js_put (p # ps) k v = (if fst p = k then (k, v) # ps else p # js_put ps k v)"

definition array_index :: "jsstring \<Rightarrow> nat option" where
  "array_index k =
     (if k \<noteq> [] \<and> list_all is_digit k \<and> (if hd k = 48 then k = [48] else True)
         \<and> digits_value k < 4294967295
      then Some (digits_value k) else None)"

definition index_of_entry :: "jsstring \<times> 'a \<Rightarrow> nat" where
  "index_of_entry p = (case array_index (fst p) of Some i \<Rightarrow> i | None \<Rightarrow> 0)"

definition js_entries :: "'a jsobject \<Rightarrow> (jsstring \<times> 'a) list" where
  "js_entries obj =
     sort_key index_of_entry (filter (\<lambda>p. array_index (fst p) \<noteq> None) obj)
       @ filter (\<lambda>p. array_index (fst p) = None) obj"

definition js_keys :: "'a jsobject \<Rightarrow> jsstring list" where
  "js_keys obj = map fst (js_entries obj)"

definition js_values :: "'a jsobject \<Rightarrow> 'a list" where
  "js_values obj = map snd (js_entries obj)"


section \<open>The fingerprint of a record\<close>

text \<open>
  \<open>generateHash\<close> (the same text in both versions of \<open>blockchain.ts\<close>) serialises its
  argument with \<open>JSON.stringify\<close> and folds the code units of the text into a 32-bit
  integer: \<open>hash = (hash << 5) - hash + char\<close>, then \<open>hash = hash & hash\<close>. The result is
  \<open>Math.abs(hash).toString(16).padStart(8, "0")\<close>. \<open>JSON.stringify\<close> is a built-in of the
  language and is a parameter of the model.
\<close>

definition hash_step :: "32 word \<Rightarrow> nat \<Rightarrow> 32 word" where
  "hash_step hash char = (let h = push_bit 5 hash - hash + of_nat char in h AND h)"

definition hex_digit :: "nat \<Rightarrow> nat" where
  "hex_digit d = (if d < 10 then 48 + d else 87 + d)"

fun to_hex :: "nat \<Rightarrow> jsstring" where
  "to_hex n = (if n < 16 then [hex_digit n] else to_hex (n div 16) @ [hex_digit (n mod 16)])"

definition padStart8 :: "jsstring \<Rightarrow> jsstring" where
  "padStart8 s = replicate (8 - length s) 48 @ s"

definition hash_text :: "jsstring \<Rightarrow> jsstring" where
  "hash_text str = padStart8 (to_hex (nat \<bar>sint (foldl hash_step 0 str)\<bar>))"

definition generateHash :: "('a \<Rightarrow> jsstring) \<Rightarrow> 'a \<Rightarrow> jsstring" where
  "generateHash JSON_stringify data = hash_text (JSON_stringify data)"

text \<open>The checksum as the specification words it: \<open>acc = acc * 31 + charCode\<close> in 32 bits.\<close>

definition spec_checksum :: "jsstring \<Rightarrow> 32 word" where
  "spec_checksum str = foldl (\<lambda>acc c. acc * 31 + of_nat c) 0 str"


section \<open>Medication names in a prescription text\<close>

text \<open>
  \<open>extractMedicationsFromPrescription\<close> splits the text at commas and line feeds. For
  each piece, \<open>med.trim().match(/^([A-Za-z\s]+)/)\<close> is the longest leading run of letters
  and white space of the trimmed piece, and fails when that run is empty. A match is
  kept trimmed; a piece with no match is kept whole, trimmed. Empty names are dropped.
\<close>

definition letter_or_space :: "nat \<Rightarrow> bool" where
  "letter_or_space c = (is_letter c \<or> is_space c)"

definition medication_name :: "jsstring \<Rightarrow> jsstring" where
  "medication_name med =
     (let match = takeWhile letter_or_space (trim med)
      in if match \<noteq> [] then trim match else trim med)"

definition extractMedicationsFromPrescription :: "jsstring \<Rightarrow> jsstring list" where
  "extractMedicationsFromPrescription prescription =
     filter (\<lambda>med. length med > 0)
       (map medication_name (split_on comma_or_newline prescription))"

text \<open>
  The extraction as the specification words it: split on commas and newlines, trim, keep
  the leading alphabetic run, drop empty entries.
\<close>

definition spec_medication_names :: "jsstring \<Rightarrow> jsstring list" where
  "spec_medication_names prescription =
     filter (\<lambda>med. med \<noteq> [])
       (map (\<lambda>piece. takeWhile is_letter (trim piece))
          (split_on comma_or_newline prescription))"


section \<open>Results, errors and outcomes\<close>

text \<open>
  \<open>PrescriptionResult\<close> of \<open>types.ts\<close>, with the two fields the second version adds
  (\<open>historyReference\<close>, \<open>medications\<close>) and the \<open>imageAnalysis\<close> that the spread of the
  analysis brings along there. An optional property is an \<open>option\<close>; a property that may
  hold \<open>null\<close> is a \<open>nullable\<close>.
\<close>

datatype rx_status = Valid | Warning | Invalid

datatype severity = Low | Medium | High

datatype 'a nullable = Null | Value 'a

record issue =
  title :: jsstring
  description :: jsstring
  severity :: severity

record suggestion =
  suggestion_title :: jsstring
  suggestion_description :: jsstring

record data_sources =
  vectorDbEntries :: real
  searchQueries :: real

record analysis =
  a_status :: rx_status
  a_issues :: "issue list"
  a_suggestions :: "suggestion list"
  a_dataSources :: data_sources
  a_imageAnalysis :: "jsstring nullable option"
  a_historyReference :: "jsstring nullable option"

record prescription_result =
  result_id :: jsstring
  originalPrescription :: jsstring
  status :: rx_status
  issues :: "issue list option"
  suggestions :: "suggestion list option"
  dataSources :: data_sources
  imageAnalysis :: "jsstring nullable option"
  historyReference :: "jsstring nullable option"
  timestamp :: jsstring
  blockchainStatus :: jsstring
  lastUpdated :: jsstring
  medications :: "jsstring list option"

text \<open>
  The errors the sources throw, named by their messages; \<open>RemoteError\<close> is whatever the
  generative-AI client or the Neo4j driver throws.
\<close>

datatype error =
    RecordNotFound
  | RecordNotFoundOnBlockchain
  | FailedToAnalyzePrescription
  | FailedToUpdateBlockchainRecord
  | InvalidAIResponseFormat
  | RemoteError

text \<open>
  An asynchronous operation on a state resolves with a value or rejects with an error,
  and leaves a state either way. \<open>Beyond\<close> marks the calls that go on with a member of
  \<open>Object.prototype\<close> in the place of a record, or that assign to \<open>__proto__\<close>: what
  they do to the prototype chain is outside this model, which then says nothing about
  the call.
\<close>

datatype ('a, 's) outcome = Resolved 'a 's | Rejected error 's | Beyond


section \<open>The AI analysis invoker: post-processing of the reply\<close>

text \<open>
  The first version of \<open>ai.ts\<close> cleans the reply with
  \<open>replace(/```json\n?/g, '').replace(/```\n?/g, '').trim()\<close>, the second with
  \<open>replace(/```json|```/g, "").trim()\<close>. A global replace scans the text once from the
  left and resumes after each match. The code unit 96 is the backtick.
\<close>

definition fence :: jsstring where
  "fence = [96, 96, 96]"

definition fence_json :: jsstring where
  "fence_json = [96, 96, 96] @ js ''json''"

fun skip_newline :: "jsstring \<Rightarrow> jsstring" where
  "skip_newline [] = []"
| "skip_newline (c # cs) = (if c = 10 then cs else c # cs)"

function remove_json_fences :: "jsstring \<Rightarrow> jsstring" where
  "remove_json_fences [] = []"
| "remove_json_fences (c # cs) =
     (if take 7 (c # cs) = fence_json
      then remove_json_fences (skip_newline (drop 7 (c # cs)))
      else c # remove_json_fences cs)"
  by pat_completeness auto
termination
proof (relation "measure length")
  show "wf (measure length)" by simp
next
  fix c :: nat and cs :: jsstring
  have "length (skip_newline xs) \<le> length xs" for xs by (cases xs) auto
  then have "length (skip_newline (drop 6 cs)) \<le> length (drop 6 cs)" .
  then show "(skip_newline (drop 7 (c # cs)), c # cs) \<in> measure length" by simp
next
  fix c :: nat and cs :: jsstring
  show "(cs, c # cs) \<in> measure length" by simp
qed

function remove_plain_fences :: "jsstring \<Rightarrow> jsstring" where
  "remove_plain_fences [] = []"
| "remove_plain_fences (c # cs) =
     (if take 3 (c # cs) = fence
      then remove_plain_fences (skip_newline (drop 3 (c # cs)))
      else c # remove_plain_fences cs)"
  by pat_completeness auto
termination
proof (relation "measure length")
  show "wf (measure length)" by simp
next
  fix c :: nat and cs :: jsstring
  have "length (skip_newline xs) \<le> length xs" for xs by (cases xs) auto
  then have "length (skip_newline (drop 2 cs)) \<le> length (drop 2 cs)" .
  then show "(skip_newline (drop 3 (c # cs)), c # cs) \<in> measure length" by simp
next
  fix c :: nat and cs :: jsstring
  show "(cs, c # cs) \<in> measure length" by simp
qed

fun remove_fences :: "jsstring \<Rightarrow> jsstring" where
  "remove_fences [] = []"
| "remove_fences (c # cs) =
     (if take 7 (c # cs) = fence_json then remove_fences (drop 7 (c # cs))
      else if take 3 (c # cs) = fence then remove_fences (drop 3 (c # cs))
      else c # remove_fences cs)"

definition clean_reply :: "jsstring \<Rightarrow> jsstring" where
  "clean_reply analysisText = trim (remove_plain_fences (remove_json_fences analysisText))"

definition clean_reply_vision :: "jsstring \<Rightarrow> jsstring" where
  "clean_reply_vision analysisText = trim (remove_fences analysisText)"

text \<open>
  A text holds a code-fence marker when three backticks stand somewhere in it. The two
  usual ways to fence a payload are \<open>```json\<close>, a line feed, the payload, a line feed and
  \<open>```\<close>, and the same with a bare \<open>```\<close> in front.
\<close>

fun has_fence :: "jsstring \<Rightarrow> bool" where
  "has_fence [] = False"
| "has_fence (c # cs) = (take 3 (c # cs) = fence \<or> has_fence cs)"

definition fenced_json :: "jsstring \<Rightarrow> jsstring" where
  "fenced_json p = fence_json @ [10] @ p @ [10] @ fence"

definition fenced_plain :: "jsstring \<Rightarrow> jsstring" where
  "fenced_plain p = fence @ [10] @ p @ [10] @ fence"

text \<open>
  \<open>JSON.parse\<close> is a built-in and a parameter of the model: it gives a JSON value, or
  nothing where it throws a \<open>SyntaxError\<close>. The schema is the \<open>analysisSchema\<close> of the
  sources: a \<open>z.object\<close> reads the properties it names and drops the others, \<open>z.enum\<close>
  accepts the listed strings, \<open>z.array\<close> needs every element to pass, and
  \<open>z.string().nullable()\<close> accepts a string or \<open>null\<close> but not a missing property.
\<close>

datatype json =
    JNull
  | JBool bool
  | JNumber real
  | JString jsstring
  | JArray "json list"
  | JObject "(jsstring \<times> json) list"

definition property :: "(jsstring \<times> json) list \<Rightarrow> string \<Rightarrow> json option" where
  "property obj name = map_of obj (js name)"

definition zod_string :: "json option \<Rightarrow> jsstring option" where
  "zod_string v = (case v of Some (JString s) \<Rightarrow> Some s | _ \<Rightarrow> None)"

definition zod_number :: "json option \<Rightarrow> real option" where
  "zod_number v = (case v of Some (JNumber n) \<Rightarrow> Some n | _ \<Rightarrow> None)"

definition zod_nullable_string :: "json option \<Rightarrow> jsstring nullable option" where
  "zod_nullable_string v =
     (case v of Some JNull \<Rightarrow> Some Null | Some (JString s) \<Rightarrow> Some (Value s) | _ \<Rightarrow> None)"

definition zod_status :: "json option \<Rightarrow> rx_status option" where
  "zod_status v =
     (case zod_string v of
        None \<Rightarrow> None
      | Some s \<Rightarrow>
          if s = js ''valid'' then Some Valid
          else if s = js ''warning'' then Some Warning
          else if s = js ''invalid'' then Some Invalid
          else None)"

definition zod_severity :: "json option \<Rightarrow> severity option" where
  "zod_severity v =
     (case zod_string v of
        None \<Rightarrow> None
      | Some s \<Rightarrow>
          if s = js ''low'' then Some Low
          else if s = js ''medium'' then Some Medium
          else if s = js ''high'' then Some High
          else None)"

definition zod_issue :: "json \<Rightarrow> issue option" where
  "zod_issue v =
     (case v of
        JObject obj \<Rightarrow>
          (case (zod_string (property obj ''title''), zod_string (property obj ''description''),
                 zod_severity (property obj ''severity'')) of
             (Some t, Some d, Some s) \<Rightarrow> Some \<lparr>title = t, description = d, severity = s\<rparr>
           | _ \<Rightarrow> None)
      | _ \<Rightarrow> None)"

definition zod_suggestion :: "json \<Rightarrow> suggestion option" where
  "zod_suggestion v =
     (case v of
        JObject obj \<Rightarrow>
          (case (zod_string (property obj ''title''), zod_string (property obj ''description'')) of
             (Some t, Some d) \<Rightarrow> Some \<lparr>suggestion_title = t, suggestion_description = d\<rparr>
           | _ \<Rightarrow> None)
      | _ \<Rightarrow> None)"

definition zod_array :: "(json \<Rightarrow> 'a option) \<Rightarrow> json option \<Rightarrow> 'a list option" where
  "zod_array element v = (case v of Some (JArray xs) \<Rightarrow> those (map element xs) | _ \<Rightarrow> None)"

definition zod_dataSources :: "json option \<Rightarrow> data_sources option" where
  "zod_dataSources v =
     (case v of
        Some (JObject obj) \<Rightarrow>
          (case (zod_number (property obj ''vectorDbEntries''),
                 zod_number (property obj ''searchQueries'')) of
             (Some e, Some q) \<Rightarrow> Some \<lparr>vectorDbEntries = e, searchQueries = q\<rparr>
           | _ \<Rightarrow> None)
      | _ \<Rightarrow> None)"

definition analysisSchema :: "json \<Rightarrow> analysis option" where
  "analysisSchema v =
     (case v of
        JObject obj \<Rightarrow>
          (case (zod_status (property obj ''status''),
                 zod_array zod_issue (property obj ''issues''),
                 zod_array zod_suggestion (property obj ''suggestions''),
                 zod_dataSources (property obj ''dataSources'')) of
             (Some st, Some iss, Some sug, Some ds) \<Rightarrow>
               Some \<lparr>a_status = st, a_issues = iss, a_suggestions = sug, a_dataSources = ds,
                     a_imageAnalysis = None, a_historyReference = None\<rparr>
           | _ \<Rightarrow> None)
      | _ \<Rightarrow> None)"

definition analysisSchema_vision :: "json \<Rightarrow> analysis option" where
  "analysisSchema_vision v =
     (case v of
        JObject obj \<Rightarrow>
          (case (zod_status (property obj ''status''),
                 zod_array zod_issue (property obj ''issues''),
                 zod_array zod_suggestion (property obj ''suggestions''),
                 zod_dataSources (property obj ''dataSources''),
                 zod_nullable_string (property obj ''imageAnalysis''),
                 zod_nullable_string (property obj ''historyReference'')) of
             (Some st, Some iss, Some sug, Some ds, Some img, Some href) \<Rightarrow>
               Some \<lparr>a_status = st, a_issues = iss, a_suggestions = sug, a_dataSources = ds,
                     a_imageAnalysis = Some img, a_historyReference = Some href\<rparr>
           | _ \<Rightarrow> None)
      | _ \<Rightarrow> None)"

text \<open>
  The pipeline after the remote call: clean the text, parse it, validate it. Any failure
  of the last two is rethrown as \<open>Invalid AI response format\<close>.
\<close>

definition parse_reply ::
  "(jsstring \<Rightarrow> json option) \<Rightarrow> (json \<Rightarrow> analysis option) \<Rightarrow> jsstring \<Rightarrow> error + analysis" where
  "parse_reply JSON_parse schema analysisText =
     (case JSON_parse analysisText of
        None \<Rightarrow> Inl InvalidAIResponseFormat
      | Some parsed \<Rightarrow>
          (case schema parsed of
             None \<Rightarrow> Inl InvalidAIResponseFormat
           | Some a \<Rightarrow> Inr a))"

definition post_process :: "(jsstring \<Rightarrow> json option) \<Rightarrow> jsstring \<Rightarrow> error + analysis" where
  "post_process JSON_parse text = parse_reply JSON_parse analysisSchema (clean_reply text)"

definition post_process_vision :: "(jsstring \<Rightarrow> json option) \<Rightarrow> jsstring \<Rightarrow> error + analysis" where
  "post_process_vision JSON_parse text =
     parse_reply JSON_parse analysisSchema_vision (clean_reply_vision text)"

text \<open>
  \<open>analyzePrescriptionWithRAG\<close>: the remote call is opaque, so its reply (the text of the
  response, or the error the client throws) is an input. An error of the remote call is
  rethrown as it is.
\<close>

definition analyzePrescriptionWithRAG ::
  "(jsstring \<Rightarrow> json option) \<Rightarrow> error + jsstring \<Rightarrow> error + analysis" where
  "analyzePrescriptionWithRAG JSON_parse reply =
     (case reply of Inl e \<Rightarrow> Inl e | Inr text \<Rightarrow> post_process JSON_parse text)"

definition analyzePrescriptionWithRAG_vision ::
  "(jsstring \<Rightarrow> json option) \<Rightarrow> error + jsstring \<Rightarrow> error + analysis" where
  "analyzePrescriptionWithRAG_vision JSON_parse reply =
     (case reply of Inl e \<Rightarrow> Inl e | Inr text \<Rightarrow> post_process_vision JSON_parse text)"


section \<open>The ledger stub (first version of \<open>blockchain.ts\<close>)\<close>

text \<open>
  A ledger record holds \<open>id\<close>, \<open>timestamp\<close>, \<open>status\<close>, \<open>hash\<close> and \<open>data\<close>. The \<open>id\<close> is
  optional in the model because \<open>updateOnBlockchain\<close> builds the new record from the
  spread of the old value it read, and an inherited member has no \<open>id\<close> to spread. The
  simulated delays (\<open>setTimeout\<close>) are left out: every operation is one step.
\<close>

record ledger_data =
  data_status :: rx_status
  issuesCount :: nat
  suggestionsCount :: nat

record ledger_record =
  record_id :: "jsstring option"
  record_timestamp :: jsstring
  record_status :: rx_status
  record_hash :: jsstring
  record_data :: ledger_data

type_synonym ledger = "ledger_record jsobject"

text \<open>\<open>data.issues?.length || 0\<close>: the length of the list, and 0 when there is none.\<close>

definition count_or_zero :: "'a list option \<Rightarrow> nat" where
  "count_or_zero xs = (case xs of None \<Rightarrow> 0 | Some l \<Rightarrow> length l)"

definition ledger_data_of :: "prescription_result \<Rightarrow> ledger_data" where
  "ledger_data_of data =
     \<lparr>data_status = status data,
      issuesCount = count_or_zero (issues data),
      suggestionsCount = count_or_zero (suggestions data)\<rparr>"

definition storeOnBlockchain ::
  "(prescription_result \<Rightarrow> jsstring) \<Rightarrow> prescription_result \<Rightarrow> ledger
     \<Rightarrow> (jsstring, ledger) outcome" where
  "storeOnBlockchain JSON_stringify data blockchainRecords =
     (let blockchainData =
            \<lparr>record_id = Some (result_id data),
             record_timestamp = timestamp data,
             record_status = status data,
             record_hash = generateHash JSON_stringify data,
             record_data = ledger_data_of data\<rparr>
      in if result_id data = js ''__proto__'' then Beyond
         else Resolved (result_id data) (js_put blockchainRecords (result_id data) blockchainData))"

definition getBlockchainRecord :: "jsstring \<Rightarrow> ledger \<Rightarrow> (ledger_record member, ledger) outcome" where
  "getBlockchainRecord id' blockchainRecords =
     (case js_get blockchainRecords id' of
        Undefined \<Rightarrow> Rejected RecordNotFoundOnBlockchain blockchainRecords
      | found \<Rightarrow> Resolved found blockchainRecords)"

text \<open>\<open>now\<close> is the \<open>new Date().toISOString()\<close> read inside \<open>updateOnBlockchain\<close>.\<close>

definition updateOnBlockchain ::
  "(prescription_result \<Rightarrow> jsstring) \<Rightarrow> jsstring \<Rightarrow> jsstring \<Rightarrow> prescription_result \<Rightarrow> ledger
     \<Rightarrow> (unit, ledger) outcome" where
  "updateOnBlockchain JSON_stringify now id' data blockchainRecords =
     (case js_get blockchainRecords id' of
        Own old \<Rightarrow>
          Resolved ()
            (js_put blockchainRecords id'
               (old\<lparr>record_timestamp := now,
                    record_status := status data,
                    record_hash := generateHash JSON_stringify data,
                    record_data := ledger_data_of data\<rparr>))
      | Inherited \<Rightarrow>
          if id' = js ''__proto__'' then Beyond
          else Resolved ()
            (js_put blockchainRecords id'
               \<lparr>record_id = None,
                record_timestamp = now,
                record_status = status data,
                record_hash = generateHash JSON_stringify data,
                record_data = ledger_data_of data\<rparr>)
      | Undefined \<Rightarrow> Rejected RecordNotFoundOnBlockchain blockchainRecords)"


section \<open>The orchestrator (\<open>actions.ts\<close>, first version)\<close>

text \<open>
  The state is the two module-level dictionaries. What a call reads from outside the
  program is an input of the model: the clock (\<open>Date.now()\<close> and the two
  \<open>new Date().toISOString()\<close>), the random suffix
  \<open>Math.random().toString(36).substring(2, 9)\<close>, and the reply of the remote model.
\<close>

record app_state =
  resultsStore :: "prescription_result jsobject"
  blockchainRecords :: ledger

record form_data =
  form_name :: jsstring
  form_age :: jsstring
  form_gender :: jsstring
  form_medications :: jsstring
  form_symptoms :: jsstring
  form_prescription :: jsstring

record submit_env =
  date_now :: nat
  random_suffix :: jsstring
  ai_reply :: "error + jsstring"
  created_at :: jsstring
  updated_at :: jsstring

definition analysisId :: "submit_env \<Rightarrow> jsstring" where
  "analysisId env = js ''rx-'' @ decimal (date_now env) @ js ''-'' @ random_suffix env"

definition new_result :: "submit_env \<Rightarrow> form_data \<Rightarrow> analysis \<Rightarrow> prescription_result" where
  "new_result env formData a =
     \<lparr>result_id = analysisId env,
      originalPrescription = form_prescription formData,
      status = a_status a,
      issues = Some (a_issues a),
      suggestions = Some (a_suggestions a),
      dataSources = a_dataSources a,
      imageAnalysis = a_imageAnalysis a,
      historyReference = a_historyReference a,
      timestamp = created_at env,
      blockchainStatus = js ''Pending'',
      lastUpdated = updated_at env,
      medications = None\<rparr>"

text \<open>
  \<open>analyzePrescription\<close>: every error inside the \<open>try\<close> is replaced by
  \<open>Failed to analyze prescription\<close>. The last statement writes \<open>blockchainStatus\<close> on the
  object stored under the new id.
\<close>

definition analyzePrescription ::
  "(jsstring \<Rightarrow> json option) \<Rightarrow> (prescription_result \<Rightarrow> jsstring) \<Rightarrow> submit_env \<Rightarrow> form_data
     \<Rightarrow> app_state \<Rightarrow> (unit, app_state) outcome" where
  "analyzePrescription JSON_parse JSON_stringify env formData st =
     (case analyzePrescriptionWithRAG JSON_parse (ai_reply env) of
        Inl e \<Rightarrow> Rejected FailedToAnalyzePrescription st
      | Inr a \<Rightarrow>
          (let result = new_result env formData a;
               st1 = st\<lparr>resultsStore := js_put (resultsStore st) (analysisId env) result\<rparr>
           in case storeOnBlockchain JSON_stringify result (blockchainRecords st1) of
                Beyond \<Rightarrow> Beyond
              | Rejected e l \<Rightarrow> Rejected FailedToAnalyzePrescription (st1\<lparr>blockchainRecords := l\<rparr>)
              | Resolved _ l \<Rightarrow>
                  Resolved ()
                    (st1\<lparr>blockchainRecords := l,
                         resultsStore :=
                           js_put (resultsStore st1) (analysisId env)
                             (result\<lparr>blockchainStatus := js ''Recorded''\<rparr>)\<rparr>)))"

definition mock_result :: "jsstring \<Rightarrow> jsstring \<Rightarrow> prescription_result" where
  "mock_result now1 now2 =
     \<lparr>result_id = js ''rx-mock-123456'',
      originalPrescription = js ''Lisinopril 10mg once daily, Metformin 500mg twice daily'',
      status = Warning,
      issues = Some
        [\<lparr>title = js ''Potential Drug Interaction'',
          description =
            js ''Lisinopril and Metformin may interact, causing hypoglycemia in some patients.'',
          severity = Medium\<rparr>],
      suggestions = Some
        [\<lparr>suggestion_title = js ''Monitor Blood Sugar'',
          suggestion_description =
            js ''Regularly monitor blood sugar levels when taking these medications together.''\<rparr>,
         \<lparr>suggestion_title = js ''Consider Alternative'',
          suggestion_description =
            js ''If hypoglycemia occurs, consider alternative blood pressure medications.''\<rparr>],
      dataSources = \<lparr>vectorDbEntries = 1245, searchQueries = 3\<rparr>,
      imageAnalysis = None,
      historyReference = None,
      timestamp = now1,
      blockchainStatus = js ''Recorded'',
      lastUpdated = now2,
      medications = None\<rparr>"

text \<open>
  \<open>getPrescriptionResults\<close>: the canned record when the store has no key, and otherwise
  the value read under the last key. A read is an \<open>option\<close> here (\<open>None\<close> for
  \<open>undefined\<close>); the key comes from \<open>Object.keys\<close>, so the property is an own one.
\<close>

definition getPrescriptionResults :: "jsstring \<Rightarrow> jsstring \<Rightarrow> app_state \<Rightarrow> prescription_result option" where
  "getPrescriptionResults now1 now2 st =
     (let keys = js_keys (resultsStore st)
      in if length keys = 0 then Some (mock_result now1 now2)
         else map_of (resultsStore st) (keys ! (length keys - 1)))"

text \<open>
  \<open>updateBlockchainRecord\<close>: the body of the \<open>try\<close> first, then the function with its
  \<open>catch\<close>, which replaces every error by \<open>Failed to update blockchain record\<close>.
  \<open>ledger_now\<close> is the time read by \<open>updateOnBlockchain\<close>, \<open>local_now\<close> the one written
  to \<open>lastUpdated\<close>.
\<close>

definition updateBlockchainRecord_try ::
  "(prescription_result \<Rightarrow> jsstring) \<Rightarrow> jsstring \<Rightarrow> jsstring \<Rightarrow> jsstring \<Rightarrow> app_state
     \<Rightarrow> (unit, app_state) outcome" where
  "updateBlockchainRecord_try JSON_stringify ledger_now local_now id' st =
     (case js_get (resultsStore st) id' of
        Undefined \<Rightarrow> Rejected RecordNotFound st
      | Inherited \<Rightarrow> Beyond
      | Own data \<Rightarrow>
          (case updateOnBlockchain JSON_stringify ledger_now id' data (blockchainRecords st) of
             Beyond \<Rightarrow> Beyond
           | Rejected e l \<Rightarrow> Rejected e (st\<lparr>blockchainRecords := l\<rparr>)
           | Resolved _ l \<Rightarrow>
               Resolved ()
                 (st\<lparr>blockchainRecords := l,
                     resultsStore :=
                       js_put (resultsStore st) id'
                         (data\<lparr>lastUpdated := local_now,
                               blockchainStatus := js ''Updated''\<rparr>)\<rparr>)))"

definition updateBlockchainRecord ::
  "(prescription_result \<Rightarrow> jsstring) \<Rightarrow> jsstring \<Rightarrow> jsstring \<Rightarrow> jsstring \<Rightarrow> app_state
     \<Rightarrow> (unit, app_state) outcome" where
  "updateBlockchainRecord JSON_stringify ledger_now local_now id' st =
     (case updateBlockchainRecord_try JSON_stringify ledger_now local_now id' st of
        Rejected e st' \<Rightarrow> Rejected FailedToUpdateBlockchainRecord st'
      | other \<Rightarrow> other)"


section \<open>The graph adapter (\<open>neo4j.ts\<close>)\<close>

text \<open>
  The second version stores the result object itself in the fallback map
  (\<open>mockGraphData[blockchainHash] = { result, patientInfo }\<close>) while the orchestrator
  keeps the same object in \<open>resultsStore\<close> and later writes to its fields. The objects
  therefore live in a heap (the list \<open>objects\<close>, an address being a position in it, and
  a new object being appended), and both dictionaries hold addresses.

  The Neo4j server is outside the program. What the driver answers during one call is
  an input of the model: whether \<open>neo4j.driver(...)\<close> throws, whether
  \<open>verifyConnectivity()\<close> rejects, the rows (or the error) of the two queries, and whether
  a write fails. \<open>driver\<close> is the module variable, \<open>True\<close> when it is not \<open>null\<close>.
\<close>

type_synonym address = nat

record patient_info =
  patient_name :: jsstring
  patient_age :: jsstring
  patient_gender :: jsstring
  patient_medications :: "jsstring option"
  patient_symptoms :: "jsstring option"

record mock_entry =
  entry_result :: address
  entry_patientInfo :: patient_info

record neo4j_prescription =
  rx_id :: jsstring
  rx_blockchainHash :: jsstring
  rx_originalPrescription :: jsstring
  rx_status :: rx_status
  rx_timestamp :: jsstring
  rx_lastUpdated :: jsstring

record graph_row =
  row_rx :: neo4j_prescription
  row_issues :: "issue list"
  row_suggestions :: "suggestion list"
  row_medications :: "jsstring list"

datatype connect_outcome = DriverThrows | VerifyFails | Connected

record database =
  connect :: connect_outcome
  history_rows :: "jsstring \<Rightarrow> error + graph_row list"
  hash_rows :: "jsstring \<Rightarrow> error + graph_row list"
  write_fails :: bool

record graph_state =
  objects :: "prescription_result list"
  results :: "address jsobject"
  ledger_records :: ledger
  neo4jInitialized :: bool
  driver :: bool
  mockGraphData :: "mock_entry jsobject"

text \<open>
  \<open>initNeo4j\<close> assigns \<open>driver\<close> before it verifies the connection, and its \<open>catch\<close> does
  not reset it: the variable stays \<open>null\<close> only when \<open>neo4j.driver(...)\<close> itself throws.
  Errors of \<open>initializeSchema\<close> are caught inside it.
\<close>

definition initNeo4j :: "database \<Rightarrow> graph_state \<Rightarrow> graph_state" where
  "initNeo4j db st =
     (case connect db of
        DriverThrows \<Rightarrow> st
      | VerifyFails \<Rightarrow> st\<lparr>driver := True\<rparr>
      | Connected \<Rightarrow> st\<lparr>driver := True\<rparr>)"

definition ensureNeo4jInitialized :: "database \<Rightarrow> graph_state \<Rightarrow> graph_state" where
  "ensureNeo4jInitialized db st =
     (if \<not> neo4jInitialized st then (initNeo4j db st)\<lparr>neo4jInitialized := True\<rparr> else st)"

text \<open>
  \<open>storePrescriptionInGraph\<close>: without a driver the entry goes into the fallback map. With
  a driver the medication names are extracted and one transaction is sent to the
  server; it changes nothing in the program's own state and it either commits or is
  rolled back and rethrown.
\<close>

definition storePrescriptionInGraph ::
  "database \<Rightarrow> address \<Rightarrow> patient_info \<Rightarrow> jsstring \<Rightarrow> graph_state \<Rightarrow> (unit, graph_state) outcome" where
  "storePrescriptionInGraph db result patientInfo blockchainHash st =
     (if \<not> driver st then
        (if blockchainHash = js ''__proto__'' then Beyond
         else Resolved ()
           (st\<lparr>mockGraphData :=
                 js_put (mockGraphData st) blockchainHash
                   \<lparr>entry_result = result, entry_patientInfo = patientInfo\<rparr>\<rparr>))
      else
        (let medications =
               extractMedicationsFromPrescription (originalPrescription (objects st ! result))
         in if write_fails db then Rejected RemoteError st else Resolved () st))"

definition row_result :: "graph_row \<Rightarrow> prescription_result" where
  "row_result row =
     (let rx = row_rx row
      in \<lparr>result_id = rx_id rx,
          originalPrescription = rx_originalPrescription rx,
          status = rx_status rx,
          issues = (if length (row_issues row) > 0 then Some (row_issues row) else None),
          suggestions =
            (if length (row_suggestions row) > 0 then Some (row_suggestions row) else None),
          dataSources = \<lparr>vectorDbEntries = 0, searchQueries = 0\<rparr>,
          imageAnalysis = None,
          historyReference = None,
          timestamp = rx_timestamp rx,
          blockchainStatus = js ''Recorded'',
          lastUpdated = rx_lastUpdated rx,
          medications = Some (row_medications row)\<rparr>)"

text \<open>
  \<open>getPatientPrescriptionHistory\<close>: without a driver, the results of all the entries of
  the fallback map, in the order of \<open>Object.values\<close>; \<open>patientInfo\<close> is not read. With a
  driver, the rows the server returns for the patient's name, mapped to results.
\<close>

definition getPatientPrescriptionHistory ::
  "database \<Rightarrow> patient_info \<Rightarrow> graph_state \<Rightarrow> error + prescription_result list" where
  "getPatientPrescriptionHistory db patientInfo st =
     (if \<not> driver st then
        Inr (map (\<lambda>data. objects st ! entry_result data) (js_values (mockGraphData st)))
      else
        (case history_rows db (patient_name patientInfo) of
           Inl e \<Rightarrow> Inl e
         | Inr records \<Rightarrow> Inr (map row_result records)))"

text \<open>
  \<open>getPrescriptionByHash\<close>: \<open>mockGraphData[blockchainHash]?.result || null\<close> is the result
  of an own entry; an inherited member has no \<open>result\<close>, which gives \<open>null\<close> as a missing
  key does.
\<close>

definition getPrescriptionByHash ::
  "database \<Rightarrow> jsstring \<Rightarrow> graph_state \<Rightarrow> error + prescription_result option" where
  "getPrescriptionByHash db blockchainHash st =
     (if \<not> driver st then
        (case js_get (mockGraphData st) blockchainHash of
           Own data \<Rightarrow> Inr (Some (objects st ! entry_result data))
         | Inherited \<Rightarrow> Inr None
         | Undefined \<Rightarrow> Inr None)
      else
        (case hash_rows db blockchainHash of
           Inl e \<Rightarrow> Inl e
         | Inr records \<Rightarrow>
             if length records = 0 then Inr None else Inr (Some (row_result (records ! 0)))))"

definition updatePrescriptionInGraph ::
  "database \<Rightarrow> address \<Rightarrow> jsstring \<Rightarrow> graph_state \<Rightarrow> (unit, graph_state) outcome" where
  "updatePrescriptionInGraph db result blockchainHash st =
     (if \<not> driver st then
        (case js_get (mockGraphData st) blockchainHash of
           Own data \<Rightarrow>
             Resolved ()
               (st\<lparr>mockGraphData :=
                     js_put (mockGraphData st) blockchainHash (data\<lparr>entry_result := result\<rparr>)\<rparr>)
         | Inherited \<Rightarrow> Beyond
         | Undefined \<Rightarrow> Resolved () st)
      else if write_fails db then Rejected RemoteError st else Resolved () st)"


section \<open>The ledger stub with the graph adapter (second version of \<open>blockchain.ts\<close>)\<close>

text \<open>
  The graph calls are not awaited and their errors are only logged
  (\<open>.catch((err) => console.error(...))\<close>). The write to the fallback map happens before
  the first \<open>await\<close> of the call, hence before the ledger operation resolves.
\<close>

definition storeOnBlockchain_graph ::
  "database \<Rightarrow> (prescription_result \<Rightarrow> jsstring) \<Rightarrow> address \<Rightarrow> patient_info \<Rightarrow> graph_state
     \<Rightarrow> (jsstring, graph_state) outcome" where
  "storeOnBlockchain_graph db JSON_stringify data patientInfo st0 =
     (let st = ensureNeo4jInitialized db st0;
          hash = generateHash JSON_stringify (objects st ! data);
          blockchainData =
            \<lparr>record_id = Some (result_id (objects st ! data)),
             record_timestamp = timestamp (objects st ! data),
             record_status = status (objects st ! data),
             record_hash = hash,
             record_data = ledger_data_of (objects st ! data)\<rparr>
      in if result_id (objects st ! data) = js ''__proto__'' then Beyond
         else
           (case storePrescriptionInGraph db data patientInfo hash
                   (st\<lparr>ledger_records :=
                        js_put (ledger_records st) (result_id (objects st ! data)) blockchainData\<rparr>) of
              Beyond \<Rightarrow> Beyond
            | Rejected err st' \<Rightarrow> Resolved (result_id (objects st ! data)) st'
            | Resolved _ st' \<Rightarrow> Resolved (result_id (objects st ! data)) st'))"

definition graph_update_logged ::
  "database \<Rightarrow> address \<Rightarrow> jsstring \<Rightarrow> graph_state \<Rightarrow> (unit, graph_state) outcome" where
  "graph_update_logged db data hash st =
     (case updatePrescriptionInGraph db data hash st of
        Beyond \<Rightarrow> Beyond
      | Rejected err st' \<Rightarrow> Resolved () st'
      | Resolved _ st' \<Rightarrow> Resolved () st')"

definition updateOnBlockchain_graph ::
  "database \<Rightarrow> (prescription_result \<Rightarrow> jsstring) \<Rightarrow> jsstring \<Rightarrow> jsstring \<Rightarrow> address \<Rightarrow> graph_state
     \<Rightarrow> (unit, graph_state) outcome" where
  "updateOnBlockchain_graph db JSON_stringify now id' data st0 =
     (let st = ensureNeo4jInitialized db st0;
          hash = generateHash JSON_stringify (objects st ! data)
      in case js_get (ledger_records st) id' of
           Own old \<Rightarrow>
             graph_update_logged db data hash
               (st\<lparr>ledger_records :=
                     js_put (ledger_records st) id'
                       (old\<lparr>record_timestamp := now,
                            record_status := status (objects st ! data),
                            record_hash := hash,
                            record_data := ledger_data_of (objects st ! data)\<rparr>)\<rparr>)
         | Inherited \<Rightarrow>
             if id' = js ''__proto__'' then Beyond
             else graph_update_logged db data hash
               (st\<lparr>ledger_records :=
                     js_put (ledger_records st) id'
                       \<lparr>record_id = None,
                        record_timestamp = now,
                        record_status = status (objects st ! data),
                        record_hash = hash,
                        record_data = ledger_data_of (objects st ! data)\<rparr>\<rparr>)
         | Undefined \<Rightarrow> Rejected RecordNotFoundOnBlockchain st)"

text \<open>
  \<open>getPrescriptionFromHash\<close>: \<open>Object.values(blockchainRecords).find(...)\<close> looks at the
  own records only; the graph adapter is asked only when one of them has the hash.
\<close>

definition getPrescriptionFromHash ::
  "database \<Rightarrow> jsstring \<Rightarrow> graph_state \<Rightarrow> (error + prescription_result option) \<times> graph_state" where
  "getPrescriptionFromHash db hash st0 =
     (let st = ensureNeo4jInitialized db st0
      in case find (\<lambda>r. record_hash r = hash) (js_values (ledger_records st)) of
           Some record \<Rightarrow> (getPrescriptionByHash db hash st, st)
         | None \<Rightarrow> (Inr None, st))"


section \<open>The orchestrator with the graph adapter (\<open>actions.ts\<close>, second version)\<close>

definition patient_of :: "form_data \<Rightarrow> patient_info" where
  "patient_of formData =
     \<lparr>patient_name = form_name formData,
      patient_age = form_age formData,
      patient_gender = form_gender formData,
      patient_medications = Some (form_medications formData),
      patient_symptoms = Some (form_symptoms formData)\<rparr>"

definition history_key :: "form_data \<Rightarrow> patient_info" where
  "history_key formData =
     \<lparr>patient_name = form_name formData,
      patient_age = form_age formData,
      patient_gender = form_gender formData,
      patient_medications = None,
      patient_symptoms = None\<rparr>"

definition analyzePrescription_graph ::
  "database \<Rightarrow> (jsstring \<Rightarrow> json option) \<Rightarrow> (prescription_result \<Rightarrow> jsstring) \<Rightarrow> submit_env
     \<Rightarrow> form_data \<Rightarrow> graph_state \<Rightarrow> (unit, graph_state) outcome" where
  "analyzePrescription_graph db JSON_parse JSON_stringify env formData st =
     (case getPatientPrescriptionHistory db (history_key formData) st of
        Inl e \<Rightarrow> Rejected FailedToAnalyzePrescription st
      | Inr patientHistory \<Rightarrow>
          (case analyzePrescriptionWithRAG_vision JSON_parse (ai_reply env) of
             Inl e \<Rightarrow> Rejected FailedToAnalyzePrescription st
           | Inr a \<Rightarrow>
               (let result = length (objects st);
                    st1 = st\<lparr>objects := objects st @ [new_result env formData a],
                             results := js_put (results st) (analysisId env) result\<rparr>
                in case storeOnBlockchain_graph db JSON_stringify result (patient_of formData) st1 of
                     Beyond \<Rightarrow> Beyond
                   | Rejected e st2 \<Rightarrow> Rejected FailedToAnalyzePrescription st2
                   | Resolved _ st2 \<Rightarrow>
                       Resolved ()
                         (st2\<lparr>objects := (objects st2)
                                [result := (objects st2 ! result)\<lparr>blockchainStatus := js ''Recorded''\<rparr>]\<rparr>))))"

definition updateBlockchainRecord_graph_try ::
  "database \<Rightarrow> (prescription_result \<Rightarrow> jsstring) \<Rightarrow> jsstring \<Rightarrow> jsstring \<Rightarrow> jsstring \<Rightarrow> graph_state
     \<Rightarrow> (unit, graph_state) outcome" where
  "updateBlockchainRecord_graph_try db JSON_stringify ledger_now local_now id' st =
     (case js_get (results st) id' of
        Undefined \<Rightarrow> Rejected RecordNotFound st
      | Inherited \<Rightarrow> Beyond
      | Own data \<Rightarrow>
          (case updateOnBlockchain_graph db JSON_stringify ledger_now id' data st of
             Beyond \<Rightarrow> Beyond
           | Rejected e st1 \<Rightarrow> Rejected e st1
           | Resolved _ st1 \<Rightarrow>
               Resolved ()
                 (st1\<lparr>objects := (objects st1)
                        [data := (objects st1 ! data)\<lparr>lastUpdated := local_now,
                                                       blockchainStatus := js ''Updated''\<rparr>]\<rparr>)))"

definition updateBlockchainRecord_graph ::
  "database \<Rightarrow> (prescription_result \<Rightarrow> jsstring) \<Rightarrow> jsstring \<Rightarrow> jsstring \<Rightarrow> jsstring \<Rightarrow> graph_state
     \<Rightarrow> (unit, graph_state) outcome" where
  "updateBlockchainRecord_graph db JSON_stringify ledger_now local_now id' st =
     (case updateBlockchainRecord_graph_try db JSON_stringify ledger_now local_now id' st of
        Rejected e st' \<Rightarrow> Rejected FailedToUpdateBlockchainRecord st'
      | other \<Rightarrow> other)"

text \<open>
  \<open>searchPrescriptionByHash\<close> and \<open>getPatientHistory\<close> catch every error and return
  \<open>null\<close> and the empty list in its place.
\<close>

definition searchPrescriptionByHash ::
  "database \<Rightarrow> jsstring \<Rightarrow> graph_state \<Rightarrow> prescription_result option \<times> graph_state" where
  "searchPrescriptionByHash db hash st =
     (case getPrescriptionFromHash db hash st of
        (Inl e, st') \<Rightarrow> (None, st')
      | (Inr found, st') \<Rightarrow> (found, st'))"

definition getPatientHistory :: "database \<Rightarrow> patient_info \<Rightarrow> graph_state \<Rightarrow> prescription_result list" where
  "getPatientHistory db patientInfo st =
     (case getPatientPrescriptionHistory db patientInfo st of
        Inl e \<Rightarrow> []
      | Inr history \<Rightarrow> history)"


section \<open>Initial states and sample inputs\<close>

text \<open>
  The states at module load, and concrete inputs on which the definitions are run below:
  a reply of the remote model without and with the two fields of the second schema, the
  values \<open>JSON.parse\<close> gives for these two texts, a stand-in for \<open>JSON.parse\<close> that knows
  these two texts only, and a stand-in for \<open>JSON.stringify\<close> that writes the \<open>id\<close> of a
  record only. \<open>submissions\<close> runs \<open>analyzePrescription\<close> on a list of inputs and gives the
  final state when every call resolved. \<open>pending_state\<close> (and \<open>pending_graph_state\<close> for
  the second version) is the state in the middle of a submission, after the result was
  stored locally and before the ledger write;
  \<open>recorded_state\<close> has one ledger record. Of the two databases, one is unreachable
  (\<open>verifyConnectivity\<close> rejects and every query fails) and one cannot even be given a
  driver (\<open>neo4j.driver\<close> throws).
\<close>

definition initial_state :: app_state where
  "initial_state = \<lparr>resultsStore = [], blockchainRecords = []\<rparr>"

definition initial_graph_state :: graph_state where
  "initial_graph_state =
     \<lparr>objects = [], results = [], ledger_records = [], neo4jInitialized = False,
      driver = False, mockGraphData = []\<rparr>"

definition quoted :: "jsstring \<Rightarrow> jsstring" where
  "quoted s = 34 # s @ [34]"

definition sample_reply :: jsstring where
  "sample_reply =
     js ''{'' @ quoted (js ''status'') @ js '':'' @ quoted (js ''valid'') @ js '',''
       @ quoted (js ''issues'') @ js '':[],'' @ quoted (js ''suggestions'') @ js '':[],''
       @ quoted (js ''dataSources'') @ js '':{'' @ quoted (js ''vectorDbEntries'') @ js '':2,''
       @ quoted (js ''searchQueries'') @ js '':1}}''"

definition sample_reply_vision :: jsstring where
  "sample_reply_vision =
     js ''{'' @ quoted (js ''status'') @ js '':'' @ quoted (js ''valid'') @ js '',''
       @ quoted (js ''issues'') @ js '':[],'' @ quoted (js ''suggestions'') @ js '':[],''
       @ quoted (js ''dataSources'') @ js '':{'' @ quoted (js ''vectorDbEntries'') @ js '':2,''
       @ quoted (js ''searchQueries'') @ js '':1},'' @ quoted (js ''imageAnalysis'')
       @ js '':null,'' @ quoted (js ''historyReference'') @ js '':null}''"

definition sample_json :: json where
  "sample_json =
     JObject
       [(js ''status'', JString (js ''valid'')),
        (js ''issues'', JArray []),
        (js ''suggestions'', JArray []),
        (js ''dataSources'',
           JObject [(js ''vectorDbEntries'', JNumber 2), (js ''searchQueries'', JNumber 1)])]"

definition sample_json_vision :: json where
  "sample_json_vision =
     JObject
       [(js ''status'', JString (js ''valid'')),
        (js ''issues'', JArray []),
        (js ''suggestions'', JArray []),
        (js ''dataSources'',
           JObject [(js ''vectorDbEntries'', JNumber 2), (js ''searchQueries'', JNumber 1)]),
        (js ''imageAnalysis'', JNull),
        (js ''historyReference'', JNull)]"

definition sample_analysis :: analysis where
  "sample_analysis =
     \<lparr>a_status = Valid, a_issues = [], a_suggestions = [],
      a_dataSources = \<lparr>vectorDbEntries = 2, searchQueries = 1\<rparr>,
      a_imageAnalysis = None, a_historyReference = None\<rparr>"

definition sample_parse :: "jsstring \<Rightarrow> json option" where
  "sample_parse text =
     (if text = sample_reply then Some sample_json
      else if text = sample_reply_vision then Some sample_json_vision
      else None)"

definition sample_stringify :: "prescription_result \<Rightarrow> jsstring" where
  "sample_stringify r = js ''{'' @ quoted (js ''id'') @ js '':'' @ quoted (result_id r) @ js ''}''"

definition sample_env :: "nat \<Rightarrow> string \<Rightarrow> jsstring \<Rightarrow> string \<Rightarrow> submit_env" where
  "sample_env ms suffix reply stamp =
     \<lparr>date_now = ms, random_suffix = js suffix, ai_reply = Inr reply,
      created_at = js stamp, updated_at = js stamp\<rparr>"

definition sample_form :: "string \<Rightarrow> string \<Rightarrow> form_data" where
  "sample_form patient text =
     \<lparr>form_name = js patient, form_age = js ''54'', form_gender = js ''female'',
      form_medications = js ''none'', form_symptoms = js ''high blood pressure'',
      form_prescription = js text\<rparr>"

fun submissions ::
  "(jsstring \<Rightarrow> json option) \<Rightarrow> (prescription_result \<Rightarrow> jsstring) \<Rightarrow> (submit_env \<times> form_data) list
     \<Rightarrow> app_state \<Rightarrow> app_state option" where
  "submissions JSON_parse JSON_stringify [] st = Some st"
| "submissions JSON_parse JSON_stringify ((env, formData) # rest) st =
     (case analyzePrescription JSON_parse JSON_stringify env formData st of
        Resolved _ st' \<Rightarrow> submissions JSON_parse JSON_stringify rest st'
      | _ \<Rightarrow> None)"

definition sample_analysis_vision :: analysis where
  "sample_analysis_vision =
     sample_analysis\<lparr>a_imageAnalysis := Some Null, a_historyReference := Some Null\<rparr>"

definition sample_patient :: "string \<Rightarrow> patient_info" where
  "sample_patient patient =
     \<lparr>patient_name = js patient, patient_age = js ''54'', patient_gender = js ''female'',
      patient_medications = None, patient_symptoms = None\<rparr>"

definition pending_state :: app_state where
  "pending_state =
     \<lparr>resultsStore =
        [(js ''rx-1700000000000-k3x9q2a'',
          new_result (sample_env 1700000000000 ''k3x9q2a'' sample_reply ''2023-11-14T22:13:20.000Z'')
            (sample_form ''Alice'' ''Lisinopril 10mg once daily'') sample_analysis)],
      blockchainRecords = []\<rparr>"

definition pending_graph_state :: graph_state where
  "pending_graph_state =
     initial_graph_state
       \<lparr>objects :=
          [new_result (sample_env 1700000000000 ''k3x9q2a'' sample_reply_vision ''2023-11-14T22:13:20.000Z'')
             (sample_form ''Alice'' ''Lisinopril 10mg once daily'') sample_analysis_vision],
        results := [(js ''rx-1700000000000-k3x9q2a'', 0)]\<rparr>"

definition recorded_state :: graph_state where
  "recorded_state =
     initial_graph_state
       \<lparr>ledger_records :=
          [(js ''rx-1700000000000-k3x9q2a'',
            \<lparr>record_id = Some (js ''rx-1700000000000-k3x9q2a''),
             record_timestamp = js ''2023-11-14T22:13:20.000Z'',
             record_status = Valid, record_hash = js ''0b48dd66'',
             record_data = \<lparr>data_status = Valid, issuesCount = 0, suggestionsCount = 0\<rparr>\<rparr>)]\<rparr>"

definition unreachable_database :: database where
  "unreachable_database =
     \<lparr>connect = VerifyFails, history_rows = (\<lambda>name. Inl RemoteError),
      hash_rows = (\<lambda>hash. Inl RemoteError), write_fails = True\<rparr>"

definition no_driver_database :: database where
  "no_driver_database =
     \<lparr>connect = DriverThrows, history_rows = (\<lambda>name. Inl RemoteError),
      hash_rows = (\<lambda>hash. Inl RemoteError), write_fails = True\<rparr>"

fun graph_submissions ::
  "database \<Rightarrow> (jsstring \<Rightarrow> json option) \<Rightarrow> (prescription_result \<Rightarrow> jsstring)
     \<Rightarrow> (submit_env \<times> form_data) list \<Rightarrow> graph_state \<Rightarrow> graph_state option" where
  "graph_submissions db JSON_parse JSON_stringify [] st = Some st"
| "graph_submissions db JSON_parse JSON_stringify ((env, formData) # rest) st =
     (case analyzePrescription_graph db JSON_parse JSON_stringify env formData st of
        Resolved _ st' \<Rightarrow> graph_submissions db JSON_parse JSON_stringify rest st'
      | _ \<Rightarrow> None)"


section \<open>Properties of the string functions\<close>

lemma dropWhile_rev_prefix: "\<exists>zs. xs = rev (dropWhile P (rev xs)) @ zs"
proof -
  have "rev xs = takeWhile P (rev xs) @ dropWhile P (rev xs)" by simp
  then have "xs = rev (dropWhile P (rev xs)) @ rev (takeWhile P (rev xs))"
    by (metis rev_append rev_rev_ident)
  then show ?thesis by blast
qed

lemma trim_head_not_space: "trim s \<noteq> [] \<Longrightarrow> \<not> is_space (hd (trim s))"
proof -
  assume ne: "trim s \<noteq> []"
  define u where "u = dropWhile is_space s"
  obtain zs where u: "u = trim s @ zs"
    using dropWhile_rev_prefix [of u is_space] by (auto simp: trim_def u_def)
  with ne have "hd (trim s) = hd u" by simp
  moreover have "u \<noteq> []" using u ne by auto
  then have "\<not> is_space (hd u)" unfolding u_def by (rule hd_dropWhile)
  ultimately show ?thesis by simp
qed

lemma trim_Cons_not_space: "\<not> is_space c \<Longrightarrow> trim (c # r) \<noteq> []"
  by (simp add: trim_def dropWhile_append)

lemma letter_not_space: "is_letter c \<Longrightarrow> \<not> is_space c"
  by (auto simp: is_letter_def is_space_def)

lemmas string_evals = js_def comma_or_newline_def trim_def is_letter_def is_space_def


section \<open>Properties of the dictionaries\<close>

lemma js_put_fresh: "map_of obj k = None \<Longrightarrow> js_put obj k v = obj @ [(k, v)]"
  by (induction obj) (auto split: if_splits)

lemma js_put_twice: "js_put (js_put obj k v) k w = js_put obj k w"
  by (induction obj) auto

lemma map_of_js_put: "map_of (js_put obj k v) = (map_of obj)(k \<mapsto> v)"
  by (induction obj) (auto simp: fun_eq_iff)

lemma map_fst_js_put_own: "map_of obj k = Some old \<Longrightarrow> map fst (js_put obj k v) = map fst obj"
  by (induction obj) (auto split: if_splits)

lemma js_entries_snoc:
  "array_index k = None \<Longrightarrow> js_entries (obj @ [(k, v)]) = js_entries obj @ [(k, v)]"
  by (simp add: js_entries_def)

lemma js_keys_snoc: "array_index k = None \<Longrightarrow> js_keys (obj @ [(k, v)]) = js_keys obj @ [k]"
  by (simp add: js_keys_def js_entries_snoc)

lemma array_index_letter_first: "\<not> is_digit c \<Longrightarrow> array_index (c # cs) = None"
  by (simp add: array_index_def)


lemma set_js_entries: "set (js_entries obj) = set obj"
  by (auto simp: js_entries_def)

lemma set_js_values: "set (js_values obj) = snd ` set obj"
  by (simp add: js_values_def set_js_entries)

lemma js_values_single: "js_values [(k, v)] = [v]"
  by (simp add: js_values_def js_entries_def)


section \<open>Properties of the fingerprint\<close>

lemma hash_step_times_31: "hash_step h c = h * 31 + of_nat c"
  by (simp add: hash_step_def push_bit_eq_mult)

lemma foldl_hash_step: "foldl hash_step h str = foldl (\<lambda>acc c. acc * 31 + of_nat c) h str"
  by (induction str arbitrary: h) (simp_all add: hash_step_times_31)

text \<open>The fold of the source computes the checksum the specification describes.\<close>

lemma hash_text_spec_checksum:
  "hash_text str = padStart8 (to_hex (nat \<bar>sint (spec_checksum str)\<bar>))"
  by (simp add: hash_text_def spec_checksum_def foldl_hash_step)

declare to_hex.simps [simp del]

declare decimal.simps [simp del]

lemma length_to_hex: "n < 16 ^ k \<Longrightarrow> 0 < k \<Longrightarrow> length (to_hex n) \<le> k"
proof (induction n arbitrary: k rule: to_hex.induct)
  case (1 n)
  show ?case
  proof (cases "n < 16")
    case True
    then show ?thesis using 1(3) by (simp add: to_hex.simps [of n])
  next
    case False
    then obtain j where k: "k = Suc j" using 1(3) by (cases k) auto
    have "j > 0" using False 1(2) k by (cases j) auto
    moreover have "n div 16 < 16 ^ j" using 1(2) k by (simp add: less_mult_imp_div_less)
    ultimately have "length (to_hex (n div 16)) \<le> j" using 1(1) False by blast
    then show ?thesis using False k by (simp add: to_hex.simps [of n])
  qed
qed

lemma abs_sint32: "nat \<bar>sint (w :: 32 word)\<bar> < 16 ^ 8"
proof -
  have "- (2 ^ 31) \<le> sint w" "sint w < 2 ^ 31"
    using sint_ge [of w] sint_lt [of w] by simp_all
  then show ?thesis by simp
qed

text \<open>A fingerprint has exactly eight code units, so it is never the key \<open>__proto__\<close>.\<close>

lemma length_hash_text: "length (hash_text s) = 8"
proof -
  have "length (to_hex (nat \<bar>sint (foldl hash_step 0 s)\<bar>)) \<le> 8"
    by (rule length_to_hex [OF abs_sint32]) simp
  then show ?thesis by (simp add: hash_text_def padStart8_def)
qed

lemma length_generateHash: "length (generateHash f d) = 8"
  by (simp add: generateHash_def length_hash_text)

lemma generateHash_not_proto: "generateHash f d \<noteq> js ''__proto__''"
proof
  assume "generateHash f d = js ''__proto__''"
  then have "length (generateHash f d) = length (js ''__proto__'')" by simp
  then show False by (simp add: length_generateHash js_def)
qed

lemma replicate_numeral_unfold: "replicate (numeral k) x = x # replicate (pred_numeral k) x"
  by (simp add: numeral_eq_Suc)

lemmas hash_evals = generateHash_def hash_text_def js_def hash_step_def padStart8_def
  hex_digit_def to_hex.simps replicate_numeral_unfold

text \<open>
  Claim C6. The fingerprint is deterministic: two records with the same serialised text
  get the same fingerprint. \<open>generateHash\<close> reads nothing but the text \<open>JSON.stringify\<close>
  gives for its argument: no clock, no random source and no store.
\<close>

theorem generateHash_deterministic:
  "JSON_stringify d1 = JSON_stringify d2 \<Longrightarrow>
     generateHash JSON_stringify d1 = generateHash JSON_stringify d2"
  by (simp add: generateHash_def)

theorem generateHash_deterministic_witness:
  "fst (js ''{}'', js ''Pending'') = fst (js ''{}'', js ''Recorded'')
   \<and> generateHash fst (js ''{}'', js ''Pending'') = js ''00000f62''
   \<and> generateHash fst (js ''{}'', js ''Recorded'') = js ''00000f62''"
  using generateHash_deterministic
    [of fst "(js ''{}'', js ''Pending'')" "(js ''{}'', js ''Recorded'')"]
  by (simp add: hash_evals)


section \<open>Properties of the medication-name extraction\<close>

lemma medication_name_cases:
  "medication_name med =
     (if trim med = [] then []
      else if is_letter (hd (trim med)) then trim (takeWhile letter_or_space (trim med))
      else trim med)"
proof (cases "trim med")
  case Nil
  then show ?thesis by (simp add: medication_name_def)
next
  case (Cons c r)
  then have "\<not> is_space c" using trim_head_not_space [of med] by simp
  then show ?thesis using Cons by (simp add: medication_name_def letter_or_space_def)
qed

lemma medication_name_empty_iff: "medication_name med = [] \<longleftrightarrow> trim med = []"
proof (cases "trim med")
  case Nil
  then show ?thesis by (simp add: medication_name_cases)
next
  case (Cons c r)
  show ?thesis
  proof (cases "is_letter c")
    case True
    then have "takeWhile letter_or_space (c # r) = c # takeWhile letter_or_space r"
      by (simp add: letter_or_space_def)
    then have "trim (takeWhile letter_or_space (trim med)) \<noteq> []"
      using Cons trim_Cons_not_space [OF letter_not_space [OF True]] by simp
    then show ?thesis using Cons True by (simp add: medication_name_cases)
  next
    case False
    then show ?thesis using Cons by (simp add: medication_name_cases)
  qed
qed

lemma filter_map_names:
  "filter (\<lambda>med. length med > 0) (map medication_name pieces) =
     map (\<lambda>t. if is_letter (hd t) then trim (takeWhile letter_or_space t) else t)
       (filter (\<lambda>t. t \<noteq> []) (map trim pieces))"
proof (induction pieces)
  case Nil
  then show ?case by simp
next
  case (Cons p ps)
  show ?case
  proof (cases "trim p = []")
    case True
    then have "medication_name p = []" by (simp add: medication_name_empty_iff)
    then show ?thesis using Cons True by simp
  next
    case False
    then have "medication_name p \<noteq> []" by (simp add: medication_name_empty_iff)
    then show ?thesis using Cons False by (simp add: medication_name_cases)
  qed
qed

text \<open>
  Claim C5, as the code has it. The text is split at commas and line feeds and every
  piece is trimmed; the pieces that are then empty are dropped; of every other piece the
  name is its leading run of letters and white space, trimmed, when the piece starts with
  a letter, and the whole trimmed piece when it does not. On
  \<open>Lisinopril 10mg, Metformin 500mg\<close> the names are \<open>Lisinopril\<close> and \<open>Metformin\<close>.
\<close>

theorem extractMedications_names:
  "extractMedicationsFromPrescription prescription =
     map (\<lambda>t. if is_letter (hd t) then trim (takeWhile letter_or_space t) else t)
       (filter (\<lambda>t. t \<noteq> []) (map trim (split_on comma_or_newline prescription)))
   \<and> extractMedicationsFromPrescription (js ''Lisinopril 10mg, Metformin 500mg'')
       = [js ''Lisinopril'', js ''Metformin'']"
proof
  show "extractMedicationsFromPrescription prescription =
     map (\<lambda>t. if is_letter (hd t) then trim (takeWhile letter_or_space t) else t)
       (filter (\<lambda>t. t \<noteq> []) (map trim (split_on comma_or_newline prescription)))"
    unfolding extractMedicationsFromPrescription_def by (rule filter_map_names)
  show "extractMedicationsFromPrescription (js ''Lisinopril 10mg, Metformin 500mg'')
       = [js ''Lisinopril'', js ''Metformin'']"
    by (simp add: extractMedicationsFromPrescription_def medication_name_def
        letter_or_space_def string_evals)
qed

text \<open>
  Claim C5 as it is stated fails: the name kept is not always the leading alphabetic run.
  White space belongs to the run the code keeps (\<open>Vitamin D 1000IU\<close> gives \<open>Vitamin D\<close>,
  not \<open>Vitamin\<close>), and a piece that does not start with a letter is kept whole
  (\<open>5mg Aspirin\<close>) where its leading alphabetic run is empty and would be dropped.
\<close>

theorem extractMedications_not_alphabetic_run:
  "extractMedicationsFromPrescription (js ''Vitamin D 1000IU'') = [js ''Vitamin D'']
   \<and> spec_medication_names (js ''Vitamin D 1000IU'') = [js ''Vitamin'']
   \<and> extractMedicationsFromPrescription (js ''5mg Aspirin'') = [js ''5mg Aspirin'']
   \<and> spec_medication_names (js ''5mg Aspirin'') = []"
  by (simp add: extractMedicationsFromPrescription_def spec_medication_names_def
      medication_name_def letter_or_space_def string_evals)


section \<open>Properties of the reply post-processing\<close>

lemma trim_newline_Cons: "trim (10 # s) = trim s"
  by (simp add: trim_def is_space_def)


lemma is_space_newline: "is_space 10"
  by (simp add: is_space_def)

lemma trim_snoc_newline: "trim (s @ [10]) = trim s"
proof (cases "\<forall>c\<in>set s. is_space c")
  case True
  then have a: "dropWhile is_space s = []" by simp
  have "dropWhile is_space (s @ [10]) = dropWhile is_space [10]"
    using True by (intro dropWhile_append2) simp
  also have "\<dots> = []" by (simp add: is_space_newline)
  finally have b: "dropWhile is_space (s @ [10]) = []" .
  show ?thesis unfolding trim_def a b by simp
next
  case False
  then obtain c where "c \<in> set s" "\<not> is_space c" by blast
  then have "dropWhile is_space (s @ [10]) = dropWhile is_space s @ [10]"
    by (rule dropWhile_append1)
  then show ?thesis by (simp add: trim_def is_space_newline)
qed

lemma fence_json_starts_with_fence: "take 3 s \<noteq> fence \<Longrightarrow> take 7 s \<noteq> fence_json"
proof
  assume "take 7 s = fence_json"
  then have "take 3 (take 7 s) = take 3 fence_json" by simp
  then have "take 3 s = fence" by (simp add: fence_json_def fence_def)
  moreover assume "take 3 s \<noteq> fence"
  ultimately show False by simp
qed

lemma no_fence_before_newline:
  "take 3 (c # cs) \<noteq> fence \<Longrightarrow> take 3 ((c # cs) @ 10 # r) \<noteq> fence"
proof (cases cs)
  case Nil
  then show ?thesis by (simp add: fence_def)
next
  case (Cons d ds)
  assume a: "take 3 (c # cs) \<noteq> fence"
  show ?thesis
  proof (cases ds)
    case Nil
    then show ?thesis using Cons by (simp add: fence_def)
  next
    case (Cons e es)
    then show ?thesis using a \<open>cs = d # ds\<close> by simp
  qed
qed

lemma remove_fences_body:
  "\<not> has_fence p \<Longrightarrow> remove_fences (p @ 10 # fence) = p @ [10]"
proof (induction p)
  case Nil
  then show ?case by (simp add: fence_def fence_json_def js_def)
next
  case (Cons c cs)
  then have n3: "take 3 ((c # cs) @ 10 # fence) \<noteq> fence"
    using no_fence_before_newline [of c cs fence] by simp
  then have n7: "take 7 ((c # cs) @ 10 # fence) \<noteq> fence_json"
    by (rule fence_json_starts_with_fence)
  from Cons have "remove_fences (cs @ 10 # fence) = cs @ [10]" by simp
  then show ?case using n3 n7 by simp
qed

lemma remove_plain_fences_body:
  "\<not> has_fence p \<Longrightarrow> remove_plain_fences (p @ 10 # fence) = p @ [10]"
proof (induction p)
  case Nil
  then show ?case by (simp add: fence_def)
next
  case (Cons c cs)
  then have n3: "take 3 ((c # cs) @ 10 # fence) \<noteq> fence"
    using no_fence_before_newline [of c cs fence] by simp
  from Cons have "remove_plain_fences (cs @ 10 # fence) = cs @ [10]" by simp
  then show ?case using n3 by simp
qed

lemma remove_json_fences_tail: "remove_json_fences (10 # fence) = 10 # fence"
  by (simp add: fence_def fence_json_def js_def)

lemma remove_json_fences_body:
  "\<not> has_fence p \<Longrightarrow> remove_json_fences (p @ 10 # fence) = p @ 10 # fence"
proof (induction p)
  case Nil
  then show ?case by (simp only: append_Nil remove_json_fences_tail)
next
  case (Cons c cs)
  then have n3: "take 3 ((c # cs) @ 10 # fence) \<noteq> fence"
    using no_fence_before_newline [of c cs fence] by simp
  then have n7: "take 7 ((c # cs) @ 10 # fence) \<noteq> fence_json"
    by (rule fence_json_starts_with_fence)
  from Cons have "remove_json_fences (cs @ 10 # fence) = cs @ 10 # fence" by simp
  then show ?case using n7 by simp
qed

lemma remove_fences_unfenced: "\<not> has_fence p \<Longrightarrow> remove_fences p = p"
proof (induction p)
  case Nil
  then show ?case by simp
next
  case (Cons c cs)
  then have "take 3 (c # cs) \<noteq> fence" by simp
  then have "take 7 (c # cs) \<noteq> fence_json" by (rule fence_json_starts_with_fence)
  then show ?case using Cons by simp
qed

lemma remove_plain_fences_unfenced: "\<not> has_fence p \<Longrightarrow> remove_plain_fences p = p"
  by (induction p) simp_all

lemma remove_json_fences_unfenced: "\<not> has_fence p \<Longrightarrow> remove_json_fences p = p"
proof (induction p)
  case Nil
  then show ?case by simp
next
  case (Cons c cs)
  then have "take 3 (c # cs) \<noteq> fence" by simp
  then have "take 7 (c # cs) \<noteq> fence_json" by (rule fence_json_starts_with_fence)
  then show ?case using Cons by simp
qed

lemma clean_reply_unfenced: "\<not> has_fence p \<Longrightarrow> clean_reply p = trim p"
  by (simp add: clean_reply_def remove_json_fences_unfenced remove_plain_fences_unfenced)

lemma clean_reply_vision_unfenced: "\<not> has_fence p \<Longrightarrow> clean_reply_vision p = trim p"
  by (simp add: clean_reply_vision_def remove_fences_unfenced)

lemma remove_fences_fenced_json:
  "\<not> has_fence p \<Longrightarrow> remove_fences (fenced_json p) = 10 # p @ [10]"
proof -
  assume p: "\<not> has_fence p"
  have "fenced_json p = 96 # 96 # 96 # 106 # 115 # 111 # 110 # 10 # (p @ 10 # fence)"
    by (simp add: fenced_json_def fence_json_def js_def)
  then have "remove_fences (fenced_json p) = remove_fences (10 # (p @ 10 # fence))"
    by (simp add: fence_json_def js_def)
  also have "\<dots> = 10 # remove_fences (p @ 10 # fence)"
    by (simp add: fence_json_def fence_def js_def)
  finally show ?thesis using p by (simp add: remove_fences_body)
qed

lemma remove_fences_fenced_plain:
  "\<not> has_fence p \<Longrightarrow> remove_fences (fenced_plain p) = 10 # p @ [10]"
proof -
  assume p: "\<not> has_fence p"
  have "fenced_plain p = 96 # 96 # 96 # 10 # (p @ 10 # fence)"
    by (simp add: fenced_plain_def fence_def)
  then have "remove_fences (fenced_plain p) = remove_fences (10 # (p @ 10 # fence))"
    by (simp add: fence_json_def fence_def js_def)
  also have "\<dots> = 10 # remove_fences (p @ 10 # fence)"
    by (simp add: fence_json_def fence_def js_def)
  finally show ?thesis using p by (simp add: remove_fences_body)
qed

lemma remove_json_fences_fenced_json:
  "\<not> has_fence p \<Longrightarrow> remove_json_fences (fenced_json p) = p @ 10 # fence"
proof -
  assume p: "\<not> has_fence p"
  have "fenced_json p = 96 # 96 # 96 # 106 # 115 # 111 # 110 # 10 # (p @ 10 # fence)"
    by (simp add: fenced_json_def fence_json_def js_def)
  then have "remove_json_fences (fenced_json p) = remove_json_fences (p @ 10 # fence)"
    by (simp add: fence_json_def js_def)
  then show ?thesis using p by (simp add: remove_json_fences_body)
qed

lemma remove_json_fences_fenced_plain:
  "\<not> has_fence p \<Longrightarrow> remove_json_fences (fenced_plain p) = fenced_plain p"
proof -
  assume p: "\<not> has_fence p"
  have "fenced_plain p = 96 # 96 # 96 # 10 # (p @ 10 # fence)"
    by (simp add: fenced_plain_def fence_def)
  moreover have "remove_json_fences (96 # 96 # 96 # 10 # (p @ 10 # fence))
      = 96 # 96 # 96 # 10 # remove_json_fences (p @ 10 # fence)"
    by (simp add: fence_json_def js_def)
  ultimately show ?thesis using p by (simp add: remove_json_fences_body)
qed

lemma remove_plain_fences_fenced_plain:
  "\<not> has_fence p \<Longrightarrow> remove_plain_fences (fenced_plain p) = p @ [10]"
proof -
  assume p: "\<not> has_fence p"
  have "fenced_plain p = 96 # 96 # 96 # 10 # (p @ 10 # fence)"
    by (simp add: fenced_plain_def fence_def)
  then have "remove_plain_fences (fenced_plain p) = remove_plain_fences (p @ 10 # fence)"
    by (simp add: fence_def)
  then show ?thesis using p by (simp add: remove_plain_fences_body)
qed

lemma clean_reply_fenced:
  assumes "\<not> has_fence p"
  shows "clean_reply (fenced_json p) = trim p" and "clean_reply (fenced_plain p) = trim p"
  using assms
  by (simp_all add: clean_reply_def remove_json_fences_fenced_json remove_plain_fences_body
      remove_json_fences_fenced_plain remove_plain_fences_fenced_plain trim_snoc_newline)

lemma clean_reply_vision_fenced:
  assumes "\<not> has_fence p"
  shows "clean_reply_vision (fenced_json p) = trim p"
    and "clean_reply_vision (fenced_plain p) = trim p"
  using assms
  by (simp_all add: clean_reply_vision_def remove_fences_fenced_json remove_fences_fenced_plain
      trim_newline_Cons trim_snoc_newline)

text \<open>
  Claim C7. For every payload that holds no code-fence marker, the post-processing
  pipeline (strip the fences, parse, validate) gives the same result on the payload
  fenced as on the payload itself, in both versions of \<open>ai.ts\<close> and for both ways of
  fencing.
\<close>

theorem fenced_reply_same_analysis:
  assumes "\<not> has_fence p"
  shows "post_process JSON_parse (fenced_json p) = post_process JSON_parse p
       \<and> post_process JSON_parse (fenced_plain p) = post_process JSON_parse p
       \<and> post_process_vision JSON_parse (fenced_json p) = post_process_vision JSON_parse p
       \<and> post_process_vision JSON_parse (fenced_plain p) = post_process_vision JSON_parse p"
  using assms
  by (simp add: post_process_def post_process_vision_def clean_reply_fenced
      clean_reply_vision_fenced clean_reply_unfenced clean_reply_vision_unfenced)


text \<open>The sample replies, run through the pipeline.\<close>

lemma sample_reply_no_fence: "\<not> has_fence sample_reply"
  by (simp add: sample_reply_def quoted_def js_def fence_def)

lemma sample_reply_vision_no_fence: "\<not> has_fence sample_reply_vision"
  by (simp add: sample_reply_vision_def quoted_def js_def fence_def)

lemma trim_sample_reply: "trim sample_reply = sample_reply"
  by (simp add: sample_reply_def quoted_def js_def trim_def is_space_def)

lemma trim_sample_reply_vision: "trim sample_reply_vision = sample_reply_vision"
  by (simp add: sample_reply_vision_def quoted_def js_def trim_def is_space_def)

lemma sample_replies_differ: "sample_reply_vision \<noteq> sample_reply"
  by (simp add: sample_reply_def sample_reply_vision_def quoted_def js_def)

lemma analysisSchema_sample: "analysisSchema sample_json = Some sample_analysis"
  by (simp add: analysisSchema_def sample_json_def sample_analysis_def property_def zod_status_def
      zod_string_def zod_array_def zod_dataSources_def zod_number_def js_def)

lemma analysisSchema_vision_sample:
  "analysisSchema_vision sample_json_vision =
     Some (sample_analysis\<lparr>a_imageAnalysis := Some Null, a_historyReference := Some Null\<rparr>)"
  by (simp add: analysisSchema_vision_def sample_json_vision_def sample_analysis_def property_def
      zod_status_def zod_string_def zod_array_def zod_dataSources_def zod_number_def
      zod_nullable_string_def js_def)

lemma post_process_sample: "post_process sample_parse sample_reply = Inr sample_analysis"
  by (simp add: post_process_def parse_reply_def clean_reply_unfenced sample_reply_no_fence
      trim_sample_reply sample_parse_def analysisSchema_sample)

lemma post_process_vision_sample:
  "post_process_vision sample_parse sample_reply_vision =
     Inr (sample_analysis\<lparr>a_imageAnalysis := Some Null, a_historyReference := Some Null\<rparr>)"
  by (simp add: post_process_vision_def parse_reply_def clean_reply_vision_unfenced
      sample_reply_vision_no_fence trim_sample_reply_vision sample_parse_def
      sample_replies_differ analysisSchema_vision_sample)

theorem fenced_reply_same_analysis_witness:
  "\<not> has_fence sample_reply
   \<and> post_process sample_parse (fenced_json sample_reply) = Inr sample_analysis
   \<and> post_process sample_parse (fenced_plain sample_reply) = Inr sample_analysis
   \<and> post_process_vision sample_parse (fenced_json sample_reply)
       = post_process_vision sample_parse sample_reply"
  using fenced_reply_same_analysis [OF sample_reply_no_fence, of sample_parse]
  by (simp add: sample_reply_no_fence post_process_sample)


section \<open>Properties of the orchestrator\<close>

lemma analysisId_Cons: "analysisId env = 114 # 120 # 45 # decimal (date_now env) @ 45 # random_suffix env"
  by (simp add: analysisId_def js_def)

lemma array_index_analysisId: "array_index (analysisId env) = None"
  by (simp add: analysisId_Cons array_index_letter_first is_digit_def)

lemma analysisId_not_proto: "analysisId env \<noteq> js ''__proto__''"
  by (simp add: analysisId_Cons js_def)

lemma decimal_digits: "list_all is_digit (decimal n)"
proof (induction n rule: decimal.induct)
  case (1 n)
  show ?case
  proof (cases "n < 10")
    case True
    then show ?thesis by (simp add: decimal.simps [of n] is_digit_def)
  next
    case False
    then have "list_all is_digit (decimal (n div 10))" using 1 by simp
    moreover have "is_digit (48 + n mod 10)" by (simp add: is_digit_def)
    ultimately show ?thesis using False by (simp add: decimal.simps [of n])
  qed
qed

lemma digits_value_snoc: "digits_value (s @ [d]) = 10 * digits_value s + (d - 48)"
  by (simp add: digits_value_def)

lemma digits_value_decimal: "digits_value (decimal n) = n"
proof (induction n rule: decimal.induct)
  case (1 n)
  show ?case
  proof (cases "n < 10")
    case True
    then show ?thesis by (simp add: decimal.simps [of n] digits_value_def)
  next
    case False
    then have "digits_value (decimal (n div 10)) = n div 10" using 1 by simp
    then show ?thesis using False by (simp add: decimal.simps [of n] digits_value_snoc)
  qed
qed

lemma decimal_inject: "decimal m = decimal n \<Longrightarrow> m = n"
  by (metis digits_value_decimal)

lemma decimal_no_dash: "45 \<notin> set (decimal n)"
proof
  assume "45 \<in> set (decimal n)"
  moreover have "\<forall>c\<in>set (decimal n). is_digit c"
    using decimal_digits [of n] by (simp add: list_all_iff)
  ultimately have "is_digit 45" by blast
  then show False by (simp add: is_digit_def)
qed

lemma takeWhile_up_to_dash:
  "(45::nat) \<notin> set xs \<Longrightarrow> takeWhile (\<lambda>c. c \<noteq> 45) (xs @ 45 # s) = xs"
  by (induction xs) auto

lemma split_at_first_dash:
  assumes "xs @ 45 # s = ys @ 45 # t" and "(45::nat) \<notin> set xs" and "45 \<notin> set ys"
  shows "xs = ys \<and> s = t"
proof -
  have "takeWhile (\<lambda>c. c \<noteq> 45) (xs @ 45 # s) = xs" "takeWhile (\<lambda>c. c \<noteq> 45) (ys @ 45 # t) = ys"
    using assms(2,3) by (simp_all add: takeWhile_up_to_dash)
  then have "xs = ys" using assms(1) by simp
  then show ?thesis using assms(1) by simp
qed

lemma analysisId_inject:
  "analysisId env1 = analysisId env2 \<longleftrightarrow>
     date_now env1 = date_now env2 \<and> random_suffix env1 = random_suffix env2"
proof
  assume "analysisId env1 = analysisId env2"
  then have "decimal (date_now env1) @ 45 # random_suffix env1
           = decimal (date_now env2) @ 45 # random_suffix env2"
    by (simp add: analysisId_Cons)
  then have "decimal (date_now env1) = decimal (date_now env2)
           \<and> random_suffix env1 = random_suffix env2"
    by (rule split_at_first_dash) (rule decimal_no_dash)+
  then show "date_now env1 = date_now env2 \<and> random_suffix env1 = random_suffix env2"
    using decimal_inject by blast
next
  assume "date_now env1 = date_now env2 \<and> random_suffix env1 = random_suffix env2"
  then show "analysisId env1 = analysisId env2" by (simp add: analysisId_def)
qed

lemma analyzePrescription_Resolved:
  assumes "analyzePrescription JSON_parse JSON_stringify env formData st = Resolved u st'"
  shows "\<exists>a. analyzePrescriptionWithRAG JSON_parse (ai_reply env) = Inr a
           \<and> resultsStore st' =
               js_put (resultsStore st) (analysisId env)
                 ((new_result env formData a)\<lparr>blockchainStatus := js ''Recorded''\<rparr>)"
  using assms
  by (auto simp: analyzePrescription_def storeOnBlockchain_def Let_def js_put_twice
      split: sum.splits if_splits)

lemma latest_after_fresh_put:
  assumes "map_of (resultsStore st) k = None" and "array_index k = None"
      and "resultsStore st' = js_put (resultsStore st) k r"
  shows "getPrescriptionResults now1 now2 st' = Some r"
proof -
  have rs: "resultsStore st' = resultsStore st @ [(k, r)]"
    using assms(1,3) by (simp add: js_put_fresh)
  then have keys: "js_keys (resultsStore st') = js_keys (resultsStore st) @ [k]"
    using assms(2) by (simp add: js_keys_snoc)
  have "map_of (resultsStore st') k = Some r" using assms(3) by (simp add: map_of_js_put)
  then show ?thesis using keys by (simp add: getPrescriptionResults_def Let_def)
qed

text \<open>
  Claim C1, as the code has it. When a submission resolves and its generated id was not
  yet a key of the results store, \<open>getPrescriptionResults\<close> returns the record of that
  submission: its \<open>originalPrescription\<close> is the submitted text and its \<open>id\<close> the generated
  one. Two generated ids are equal exactly when the two submissions read the same
  \<open>Date.now()\<close> and drew the same random suffix.
\<close>

theorem submit_then_latest:
  "(analyzePrescription JSON_parse JSON_stringify env formData st = Resolved () st'
      \<and> map_of (resultsStore st) (analysisId env) = None
    \<longrightarrow> (\<exists>r. getPrescriptionResults now1 now2 st' = Some r
            \<and> originalPrescription r = form_prescription formData
            \<and> result_id r = analysisId env))
   \<and> (analysisId env1 = analysisId env2
        \<longleftrightarrow> date_now env1 = date_now env2 \<and> random_suffix env1 = random_suffix env2)"
proof (intro conjI impI)
  assume a: "analyzePrescription JSON_parse JSON_stringify env formData st = Resolved () st'
      \<and> map_of (resultsStore st) (analysisId env) = None"
  then obtain an where rs: "resultsStore st' =
               js_put (resultsStore st) (analysisId env)
                 ((new_result env formData an)\<lparr>blockchainStatus := js ''Recorded''\<rparr>)"
    using analyzePrescription_Resolved by blast
  have "getPrescriptionResults now1 now2 st'
      = Some ((new_result env formData an)\<lparr>blockchainStatus := js ''Recorded''\<rparr>)"
    using a array_index_analysisId rs by (intro latest_after_fresh_put [of st "analysisId env"]) simp_all
  then show "\<exists>r. getPrescriptionResults now1 now2 st' = Some r
            \<and> originalPrescription r = form_prescription formData
            \<and> result_id r = analysisId env"
    by (simp add: new_result_def)
next
  show "analysisId env1 = analysisId env2
        \<longleftrightarrow> date_now env1 = date_now env2 \<and> random_suffix env1 = random_suffix env2"
    by (rule analysisId_inject)
qed

lemma analyze_sample: "analyzePrescriptionWithRAG sample_parse (Inr sample_reply) = Inr sample_analysis"
  by (simp add: analyzePrescriptionWithRAG_def post_process_sample)

lemma sample_env_fields:
  "date_now (sample_env ms suffix reply stamp) = ms"
  "random_suffix (sample_env ms suffix reply stamp) = js suffix"
  "ai_reply (sample_env ms suffix reply stamp) = Inr reply"
  "created_at (sample_env ms suffix reply stamp) = js stamp"
  "updated_at (sample_env ms suffix reply stamp) = js stamp"
  by (simp_all add: sample_env_def)

lemma analyzePrescription_sample:
  "analyzePrescription sample_parse sample_stringify (sample_env ms suffix sample_reply stamp)
       formData st =
     (let env = sample_env ms suffix sample_reply stamp;
          result = new_result env formData sample_analysis
      in Resolved ()
           \<lparr>resultsStore =
              js_put (resultsStore st) (analysisId env) (result\<lparr>blockchainStatus := js ''Recorded''\<rparr>),
            blockchainRecords =
              js_put (blockchainRecords st) (analysisId env)
                \<lparr>record_id = Some (analysisId env), record_timestamp = js stamp,
                 record_status = Valid, record_hash = generateHash sample_stringify result,
                 record_data = \<lparr>data_status = Valid, issuesCount = 0, suggestionsCount = 0\<rparr>\<rparr>\<rparr>)"
  by (simp add: analyzePrescription_def analyze_sample sample_env_fields storeOnBlockchain_def
      Let_def new_result_def analysisId_not_proto js_put_twice ledger_data_of_def
      count_or_zero_def sample_analysis_def)

theorem submit_then_latest_witness:
  "(case analyzePrescription sample_parse sample_stringify
           (sample_env 1700000000000 ''k3x9q2a'' sample_reply ''2023-11-14T22:13:20.000Z'')
           (sample_form ''Alice'' ''Lisinopril 10mg once daily'') initial_state of
      Resolved _ st' \<Rightarrow>
        map_option originalPrescription
          (getPrescriptionResults (js ''2023-11-14T22:13:30.000Z'') (js ''2023-11-14T22:13:30.000Z'') st')
          = Some (js ''Lisinopril 10mg once daily'')
    | _ \<Rightarrow> False)"
proof -
  define env where "env = sample_env 1700000000000 ''k3x9q2a'' sample_reply ''2023-11-14T22:13:20.000Z''"
  define formData where "formData = sample_form ''Alice'' ''Lisinopril 10mg once daily''"
  obtain st' where run:
    "analyzePrescription sample_parse sample_stringify env formData initial_state = Resolved () st'"
    by (simp add: env_def analyzePrescription_sample Let_def)
  have fresh: "map_of (resultsStore initial_state) (analysisId env) = None"
    by (simp add: initial_state_def)
  obtain r where "getPrescriptionResults (js ''2023-11-14T22:13:30.000Z'') (js ''2023-11-14T22:13:30.000Z'') st' = Some r"
      and "originalPrescription r = form_prescription formData"
    using submit_then_latest [of sample_parse sample_stringify env formData initial_state st'
        "js ''2023-11-14T22:13:30.000Z''" "js ''2023-11-14T22:13:30.000Z''"] run fresh
    by blast
  then show ?thesis
    using run by (simp add: env_def [symmetric] formData_def [symmetric])
      (simp add: formData_def sample_form_def)
qed


text \<open>
  Claim C1 as it is stated fails. Nothing but the clock and the random source makes an
  id: two submissions that read the same \<open>Date.now()\<close> and draw the same suffix get the
  same id, and the second overwrites the first in place. After Alice, Carol and then Bob
  with Alice's id, the last key of the store is Carol's, and \<open>getPrescriptionResults\<close>
  returns her prescription, not the one just submitted.
\<close>

lemma analysisId_sample:
  "analysisId (sample_env 1700000000000 ''k3x9q2a'' reply stamp) = js ''rx-1700000000000-k3x9q2a''"
  by (simp add: analysisId_def sample_env_fields decimal.simps js_def)

lemma analysisId_sample_later:
  "analysisId (sample_env 1700000004000 ''p0d7m1z'' reply stamp) = js ''rx-1700000004000-p0d7m1z''"
  by (simp add: analysisId_def sample_env_fields decimal.simps js_def)

theorem generated_ids_collide:
  "map_option (\<lambda>st. map fst (resultsStore st))
     (submissions sample_parse sample_stringify
        [(sample_env 1700000000000 ''k3x9q2a'' sample_reply ''2023-11-14T22:13:20.000Z'',
          sample_form ''Alice'' ''Lisinopril 10mg once daily''),
         (sample_env 1700000000000 ''k3x9q2a'' sample_reply ''2023-11-14T22:13:20.000Z'',
          sample_form ''Bob'' ''Metformin 500mg twice daily'')]
        initial_state)
     = Some [js ''rx-1700000000000-k3x9q2a'']
   \<and> map_option originalPrescription
       (Option.bind
          (submissions sample_parse sample_stringify
             [(sample_env 1700000000000 ''k3x9q2a'' sample_reply ''2023-11-14T22:13:20.000Z'',
               sample_form ''Alice'' ''Lisinopril 10mg once daily''),
              (sample_env 1700000004000 ''p0d7m1z'' sample_reply ''2023-11-14T22:13:24.000Z'',
               sample_form ''Carol'' ''Atorvastatin 20mg at night''),
              (sample_env 1700000000000 ''k3x9q2a'' sample_reply ''2023-11-14T22:13:20.000Z'',
               sample_form ''Bob'' ''Metformin 500mg twice daily'')]
             initial_state)
          (getPrescriptionResults (js ''2023-11-14T22:13:30.000Z'') (js ''2023-11-14T22:13:30.000Z'')))
     = Some (js ''Atorvastatin 20mg at night'')"
  by (simp add: analyzePrescription_sample Let_def initial_state_def analysisId_sample
      analysisId_sample_later getPrescriptionResults_def js_keys_def js_entries_def
      array_index_letter_first is_digit_def new_result_def sample_form_def js_def)


section \<open>Properties of the ledger stub\<close>

lemma ensure_keeps:
  "results (ensureNeo4jInitialized db st) = results st"
  "objects (ensureNeo4jInitialized db st) = objects st"
  "ledger_records (ensureNeo4jInitialized db st) = ledger_records st"
  "mockGraphData (ensureNeo4jInitialized db st) = mockGraphData st"
  by (simp_all add: ensureNeo4jInitialized_def initNeo4j_def split: connect_outcome.splits)

lemma ledger_absent_id_rejected:
  assumes "map_of records id' = None" and "id' \<notin> set object_prototype_names"
  shows "getBlockchainRecord id' records
           = Rejected RecordNotFoundOnBlockchain records"
    and "updateOnBlockchain JSON_stringify now id' data records
           = Rejected RecordNotFoundOnBlockchain records"
  using assms by (simp_all add: getBlockchainRecord_def updateOnBlockchain_def js_get_def)

lemma ledger_update_overwrites:
  assumes "map_of records id' = Some old"
  shows "\<exists>l. updateOnBlockchain JSON_stringify now id' data records = Resolved () l
           \<and> map_of l id' =
               Some (old\<lparr>record_timestamp := now,
                         record_status := status data,
                         record_hash := generateHash JSON_stringify data,
                         record_data :=
                           \<lparr>data_status = status data,
                            issuesCount = count_or_zero (issues data),
                            suggestionsCount = count_or_zero (suggestions data)\<rparr>\<rparr>)
           \<and> (\<forall>k. k \<noteq> id' \<longrightarrow> map_of l k = map_of records k)
           \<and> map fst l = map fst records"
  using assms
  by (simp add: updateOnBlockchain_def js_get_def map_of_js_put map_fst_js_put_own ledger_data_of_def)

lemma updateOnBlockchain_Rejected:
  "updateOnBlockchain JSON_stringify now id' data l = Rejected e l' \<Longrightarrow>
     l' = l \<and> e = RecordNotFoundOnBlockchain \<and> js_get l id' = Undefined"
  by (auto simp: updateOnBlockchain_def split: member.splits if_splits)

lemma graph_update_logged_not_Rejected:
  "graph_update_logged db data hash st \<noteq> Rejected e st'"
  by (simp add: graph_update_logged_def split: outcome.splits)

lemma updateOnBlockchain_graph_Rejected:
  "updateOnBlockchain_graph db JSON_stringify now id' data st = Rejected e st' \<Longrightarrow>
     st' = ensureNeo4jInitialized db st \<and> e = RecordNotFoundOnBlockchain
       \<and> js_get (ledger_records st) id' = Undefined"
  by (auto simp: updateOnBlockchain_graph_def Let_def graph_update_logged_not_Rejected ensure_keeps
      split: member.splits if_splits)

text \<open>
  Claim C9 at the key \<open>constructor\<close>, which no ledger holds. \<open>blockchainRecords[id]\<close>
  reads the member inherited from \<open>Object.prototype\<close>, which is truthy: on the empty
  ledger \<open>getBlockchainRecord\<close> resolves with that member and \<open>updateOnBlockchain\<close>
  resolves and creates a record without an \<open>id\<close>, where the claim has both fail with
  a not-found error. (For the other ids the two lemmas \<open>ledger_absent_id_rejected\<close> and
  \<open>ledger_update_overwrites\<close> above give what the claim says.)
\<close>

theorem inherited_key_found_in_ledger:
  "getBlockchainRecord (js ''constructor'') [] = Resolved Inherited []
   \<and> updateOnBlockchain sample_stringify (js ''2023-11-14T22:14:00.000Z'') (js ''constructor'')
        (mock_result (js ''2023-11-14T22:13:30.000Z'') (js ''2023-11-14T22:13:30.000Z'')) []
       = Resolved ()
           [(js ''constructor'',
             \<lparr>record_id = None, record_timestamp = js ''2023-11-14T22:14:00.000Z'',
              record_status = Warning,
              record_hash = generateHash sample_stringify
                (mock_result (js ''2023-11-14T22:13:30.000Z'') (js ''2023-11-14T22:13:30.000Z'')),
              record_data = \<lparr>data_status = Warning, issuesCount = 1, suggestionsCount = 2\<rparr>\<rparr>)]"
  by (simp add: getBlockchainRecord_def updateOnBlockchain_def js_get_def
      object_prototype_names_def ledger_data_of_def count_or_zero_def mock_result_def)
    (simp add: js_def)



section \<open>Updating a record\<close>

text \<open>
  Claim C2, as the code has it. For every id that is neither a key of the results store
  nor the name of a member inherited from \<open>Object.prototype\<close>, the body of
  \<open>updateBlockchainRecord\<close> throws \<open>Record not found\<close>, and the call fails with the
  error that the \<open>catch\<close> puts in its place, \<open>Failed to update blockchain record\<close>;
  no store is changed. This holds for both versions of \<open>actions.ts\<close>.
\<close>

theorem unknown_id_update_fails:
  "(map_of (resultsStore st) id' = None \<and> id' \<notin> set object_prototype_names \<longrightarrow>
      updateBlockchainRecord_try JSON_stringify t1 t2 id' st = Rejected RecordNotFound st
      \<and> updateBlockchainRecord JSON_stringify t1 t2 id' st
          = Rejected FailedToUpdateBlockchainRecord st)
   \<and> (map_of (results gst) id' = None \<and> id' \<notin> set object_prototype_names \<longrightarrow>
      updateBlockchainRecord_graph_try db JSON_stringify t1 t2 id' gst = Rejected RecordNotFound gst
      \<and> updateBlockchainRecord_graph db JSON_stringify t1 t2 id' gst
          = Rejected FailedToUpdateBlockchainRecord gst)"
  by (simp add: updateBlockchainRecord_def updateBlockchainRecord_try_def
      updateBlockchainRecord_graph_def updateBlockchainRecord_graph_try_def js_get_def)

lemma mock_id_not_inherited: "js ''rx-mock-123456'' \<notin> set object_prototype_names"
  by (simp add: object_prototype_names_def js_def)

theorem unknown_id_update_fails_witness:
  "map_of (resultsStore initial_state) (js ''rx-mock-123456'') = None
   \<and> js ''rx-mock-123456'' \<notin> set object_prototype_names
   \<and> updateBlockchainRecord_try sample_stringify (js ''2023-11-14T22:14:00.000Z'')
        (js ''2023-11-14T22:14:01.500Z'') (js ''rx-mock-123456'') initial_state
       = Rejected RecordNotFound initial_state
   \<and> updateBlockchainRecord sample_stringify (js ''2023-11-14T22:14:00.000Z'')
        (js ''2023-11-14T22:14:01.500Z'') (js ''rx-mock-123456'') initial_state
       = Rejected FailedToUpdateBlockchainRecord initial_state"
  using unknown_id_update_fails [of initial_state "js ''rx-mock-123456''" sample_stringify
      "js ''2023-11-14T22:14:00.000Z''" "js ''2023-11-14T22:14:01.500Z''"]
    mock_id_not_inherited
  by (simp add: initial_state_def)

text \<open>
  Claim C2 as it is stated fails: the error the caller receives is not the not-found
  error. With an empty store the dashboard shows the canned record \<open>rx-mock-123456\<close>;
  updating it fails with \<open>Failed to update blockchain record\<close>.
\<close>

theorem update_error_is_generic:
  "updateBlockchainRecord sample_stringify (js ''2023-11-14T22:14:00.000Z'')
        (js ''2023-11-14T22:14:01.500Z'') (js ''rx-mock-123456'') initial_state
       = Rejected FailedToUpdateBlockchainRecord initial_state
   \<and> updateBlockchainRecord sample_stringify (js ''2023-11-14T22:14:00.000Z'')
        (js ''2023-11-14T22:14:01.500Z'') (js ''rx-mock-123456'') initial_state
       \<noteq> Rejected RecordNotFound initial_state"
  using mock_id_not_inherited
  by (simp add: updateBlockchainRecord_def updateBlockchainRecord_try_def js_get_def
      initial_state_def)

text \<open>
  Claim C10. When the ledger update fails for an id that the results store holds,
  \<open>updateBlockchainRecord\<close> fails and the stored result is as it was: in the first
  version the whole state is unchanged, in the second the dictionary of results and
  every result object are. More generally, whenever \<open>updateBlockchainRecord\<close> fails the
  local results are unchanged: \<open>lastUpdated\<close> and \<open>blockchainStatus\<close> are written only
  after the ledger update resolved.
\<close>

theorem failed_ledger_update_keeps_local_record:
  "(map_of (resultsStore st) id' = Some data
      \<and> updateOnBlockchain JSON_stringify t1 id' data (blockchainRecords st) = Rejected e l
    \<longrightarrow> updateBlockchainRecord JSON_stringify t1 t2 id' st
          = Rejected FailedToUpdateBlockchainRecord st)
   \<and> (updateBlockchainRecord JSON_stringify t1 t2 id' st = Rejected e' st'
    \<longrightarrow> resultsStore st' = resultsStore st)
   \<and> (map_of (results gst) id' = Some a
      \<and> updateOnBlockchain_graph db JSON_stringify t1 id' a gst = Rejected e gst1
    \<longrightarrow> updateBlockchainRecord_graph db JSON_stringify t1 t2 id' gst
          = Rejected FailedToUpdateBlockchainRecord gst1
        \<and> results gst1 = results gst \<and> objects gst1 = objects gst)
   \<and> (updateBlockchainRecord_graph db JSON_stringify t1 t2 id' gst = Rejected e' gst'
    \<longrightarrow> results gst' = results gst \<and> objects gst' = objects gst)"
proof (intro conjI impI)
  assume a: "map_of (resultsStore st) id' = Some data
      \<and> updateOnBlockchain JSON_stringify t1 id' data (blockchainRecords st) = Rejected e l"
  then have "l = blockchainRecords st" using updateOnBlockchain_Rejected by blast
  then show "updateBlockchainRecord JSON_stringify t1 t2 id' st
          = Rejected FailedToUpdateBlockchainRecord st"
    using a by (simp add: updateBlockchainRecord_def updateBlockchainRecord_try_def js_get_def)
next
  assume "updateBlockchainRecord JSON_stringify t1 t2 id' st = Rejected e' st'"
  then show "resultsStore st' = resultsStore st"
    by (auto simp: updateBlockchainRecord_def updateBlockchainRecord_try_def
        split: outcome.splits member.splits dest: updateOnBlockchain_Rejected)
next
  assume a: "map_of (results gst) id' = Some a
      \<and> updateOnBlockchain_graph db JSON_stringify t1 id' a gst = Rejected e gst1"
  then have g: "gst1 = ensureNeo4jInitialized db gst"
    using updateOnBlockchain_graph_Rejected by blast
  show "updateBlockchainRecord_graph db JSON_stringify t1 t2 id' gst
          = Rejected FailedToUpdateBlockchainRecord gst1"
    using a by (simp add: updateBlockchainRecord_graph_def updateBlockchainRecord_graph_try_def
        js_get_def)
  show "results gst1 = results gst" using g by (simp add: ensure_keeps)
  show "objects gst1 = objects gst" using g by (simp add: ensure_keeps)
next
  assume a: "updateBlockchainRecord_graph db JSON_stringify t1 t2 id' gst = Rejected e' gst'"
  then have "gst' = gst \<or> gst' = ensureNeo4jInitialized db gst"
    by (auto simp: updateBlockchainRecord_graph_def updateBlockchainRecord_graph_try_def
        split: outcome.splits member.splits dest: updateOnBlockchain_graph_Rejected)
  then show "results gst' = results gst" "objects gst' = objects gst"
    by (auto simp: ensure_keeps)
qed

lemma sample_id_not_inherited: "js ''rx-1700000000000-k3x9q2a'' \<notin> set object_prototype_names"
  by (simp add: object_prototype_names_def js_def)

theorem failed_ledger_update_keeps_local_record_witness:
  "updateOnBlockchain sample_stringify (js ''2023-11-14T22:13:20.400Z'')
       (js ''rx-1700000000000-k3x9q2a'')
       (new_result (sample_env 1700000000000 ''k3x9q2a'' sample_reply ''2023-11-14T22:13:20.000Z'')
          (sample_form ''Alice'' ''Lisinopril 10mg once daily'') sample_analysis)
       (blockchainRecords pending_state)
     = Rejected RecordNotFoundOnBlockchain []
   \<and> updateBlockchainRecord sample_stringify (js ''2023-11-14T22:13:20.400Z'')
       (js ''2023-11-14T22:13:21.900Z'') (js ''rx-1700000000000-k3x9q2a'') pending_state
     = Rejected FailedToUpdateBlockchainRecord pending_state
   \<and> map (\<lambda>p. (blockchainStatus (snd p), lastUpdated (snd p))) (resultsStore pending_state)
       = [(js ''Pending'', js ''2023-11-14T22:13:20.000Z'')]
   \<and> updateBlockchainRecord_graph unreachable_database sample_stringify
       (js ''2023-11-14T22:13:20.400Z'') (js ''2023-11-14T22:13:21.900Z'')
       (js ''rx-1700000000000-k3x9q2a'') pending_graph_state
     = Rejected FailedToUpdateBlockchainRecord
         (pending_graph_state\<lparr>neo4jInitialized := True, driver := True\<rparr>)
   \<and> map (\<lambda>r. (blockchainStatus r, lastUpdated r))
         (objects (pending_graph_state\<lparr>neo4jInitialized := True, driver := True\<rparr>))
       = [(js ''Pending'', js ''2023-11-14T22:13:20.000Z'')]"
proof -
  let ?data = "new_result (sample_env 1700000000000 ''k3x9q2a'' sample_reply ''2023-11-14T22:13:20.000Z'')
          (sample_form ''Alice'' ''Lisinopril 10mg once daily'') sample_analysis"
  let ?id = "js ''rx-1700000000000-k3x9q2a''"
  let ?t1 = "js ''2023-11-14T22:13:20.400Z''"
  let ?t2 = "js ''2023-11-14T22:13:21.900Z''"
  let ?g1 = "pending_graph_state\<lparr>neo4jInitialized := True, driver := True\<rparr>"
  note main = failed_ledger_update_keeps_local_record
  have own: "map_of (resultsStore pending_state) ?id = Some ?data"
    by (simp add: pending_state_def)
  have rej: "updateOnBlockchain sample_stringify ?t1 ?id ?data (blockchainRecords pending_state)
     = Rejected RecordNotFoundOnBlockchain []"
    using sample_id_not_inherited by (simp add: updateOnBlockchain_def js_get_def pending_state_def)
  have v1: "updateBlockchainRecord sample_stringify ?t1 ?t2 ?id pending_state
     = Rejected FailedToUpdateBlockchainRecord pending_state"
    using main [where st = pending_state and id' = ?id and data = ?data
        and JSON_stringify = sample_stringify and ?t1.0 = ?t1 and e = RecordNotFoundOnBlockchain
        and l = "[]" and ?t2.0 = ?t2] own rej
    by blast
  have gown: "map_of (results pending_graph_state) ?id = Some 0"
    by (simp add: pending_graph_state_def initial_graph_state_def)
  have grej: "updateOnBlockchain_graph unreachable_database sample_stringify ?t1 ?id 0
        pending_graph_state = Rejected RecordNotFoundOnBlockchain ?g1"
    using sample_id_not_inherited
    by (simp add: updateOnBlockchain_graph_def Let_def js_get_def pending_graph_state_def
        initial_graph_state_def ensureNeo4jInitialized_def initNeo4j_def unreachable_database_def)
  have v2: "updateBlockchainRecord_graph unreachable_database sample_stringify ?t1 ?t2 ?id
        pending_graph_state = Rejected FailedToUpdateBlockchainRecord ?g1"
    using main [where gst = pending_graph_state and id' = ?id and a = 0
        and db = unreachable_database and JSON_stringify = sample_stringify and ?t1.0 = ?t1
        and e = RecordNotFoundOnBlockchain and ?gst1.0 = ?g1 and ?t2.0 = ?t2] gown grej
    by blast
  have "map (\<lambda>p. (blockchainStatus (snd p), lastUpdated (snd p))) (resultsStore pending_state)
       = [(js ''Pending'', js ''2023-11-14T22:13:20.000Z'')]"
    by (simp add: pending_state_def new_result_def sample_env_fields)
  moreover have "map (\<lambda>r. (blockchainStatus r, lastUpdated r)) (objects ?g1)
       = [(js ''Pending'', js ''2023-11-14T22:13:20.000Z'')]"
    by (simp add: pending_graph_state_def initial_graph_state_def new_result_def sample_env_fields)
  ultimately show ?thesis using rej v1 v2 by simp
qed


section \<open>The graph adapter and the search by fingerprint\<close>

lemma js_put_values: "snd ` set (js_put obj k v) \<subseteq> insert v (snd ` set obj)"
  by (induction obj) auto

lemma storePrescriptionInGraph_ledger:
  "storePrescriptionInGraph db a p h st = Resolved u st' \<or>
   storePrescriptionInGraph db a p h st = Rejected e st' \<Longrightarrow>
     ledger_records st' = ledger_records st"
  by (auto simp: storePrescriptionInGraph_def split: if_splits)

lemma updatePrescriptionInGraph_ledger:
  "updatePrescriptionInGraph db a h st = Resolved u st' \<or>
   updatePrescriptionInGraph db a h st = Rejected e st' \<Longrightarrow>
     ledger_records st' = ledger_records st"
  by (auto simp: updatePrescriptionInGraph_def split: if_splits member.splits)

lemma graph_update_logged_ledger:
  "graph_update_logged db a h st = Resolved u st' \<Longrightarrow> ledger_records st' = ledger_records st"
  using updatePrescriptionInGraph_ledger [of db a h st]
  by (auto simp: graph_update_logged_def split: outcome.splits)

text \<open>
  The fingerprints in the ledger are the ones the store and update operations computed:
  an operation adds no fingerprint but the \<open>generateHash\<close> of the record it was given.
\<close>

lemma storeOnBlockchain_graph_fingerprints:
  assumes "storeOnBlockchain_graph db JSON_stringify a p st = Resolved i st'"
  shows "record_hash ` snd ` set (ledger_records st')
           \<subseteq> insert (generateHash JSON_stringify (objects st ! a))
               (record_hash ` snd ` set (ledger_records st))"
proof -
  define st1 where "st1 = ensureNeo4jInitialized db st"
  define r where "r =
            \<lparr>record_id = Some (result_id (objects st ! a)),
             record_timestamp = timestamp (objects st ! a),
             record_status = status (objects st ! a),
             record_hash = generateHash JSON_stringify (objects st ! a),
             record_data = ledger_data_of (objects st ! a)\<rparr>"
  define st2 where "st2 = st1\<lparr>ledger_records := js_put (ledger_records st) (result_id (objects st ! a)) r\<rparr>"
  have "storePrescriptionInGraph db a p (generateHash JSON_stringify (objects st ! a)) st2
          = Resolved () st'
      \<or> storePrescriptionInGraph db a p (generateHash JSON_stringify (objects st ! a)) st2
          = Rejected RemoteError st'"
    using assms
    by (auto simp: storeOnBlockchain_graph_def Let_def ensure_keeps st1_def st2_def r_def
        storePrescriptionInGraph_def split: if_splits)
  then have "ledger_records st' = ledger_records st2"
    by (rule storePrescriptionInGraph_ledger)
  then have "snd ` set (ledger_records st') \<subseteq> insert r (snd ` set (ledger_records st))"
    using js_put_values by (simp add: st2_def)
  then have "record_hash ` snd ` set (ledger_records st')
      \<subseteq> record_hash ` insert r (snd ` set (ledger_records st))"
    by (rule image_mono)
  then show ?thesis by (simp add: r_def)
qed

lemma updateOnBlockchain_graph_fingerprints:
  assumes "updateOnBlockchain_graph db JSON_stringify now id' a st = Resolved u st'"
  shows "record_hash ` snd ` set (ledger_records st')
           \<subseteq> insert (generateHash JSON_stringify (objects st ! a))
               (record_hash ` snd ` set (ledger_records st))"
proof (cases "js_get (ledger_records st) id'")
  case (Own old)
  define r where "r = old\<lparr>record_timestamp := now,
                            record_status := status (objects st ! a),
                            record_hash := generateHash JSON_stringify (objects st ! a),
                            record_data := ledger_data_of (objects st ! a)\<rparr>"
  have "ledger_records st' = js_put (ledger_records st) id' r"
    using assms Own
    by (auto simp: updateOnBlockchain_graph_def Let_def ensure_keeps r_def
        dest!: graph_update_logged_ledger)
  then have "snd ` set (ledger_records st') \<subseteq> insert r (snd ` set (ledger_records st))"
    using js_put_values by simp
  then have "record_hash ` snd ` set (ledger_records st')
      \<subseteq> record_hash ` insert r (snd ` set (ledger_records st))"
    by (rule image_mono)
  then show ?thesis by (simp add: r_def)
next
  case Inherited
  define r where "r = \<lparr>record_id = None, record_timestamp = now,
                        record_status = status (objects st ! a),
                        record_hash = generateHash JSON_stringify (objects st ! a),
                        record_data = ledger_data_of (objects st ! a)\<rparr>"
  have "ledger_records st' = js_put (ledger_records st) id' r"
    using assms Inherited
    by (auto simp: updateOnBlockchain_graph_def Let_def ensure_keeps r_def
        split: if_splits dest!: graph_update_logged_ledger)
  then have "snd ` set (ledger_records st') \<subseteq> insert r (snd ` set (ledger_records st))"
    using js_put_values by simp
  then have "record_hash ` snd ` set (ledger_records st')
      \<subseteq> record_hash ` insert r (snd ` set (ledger_records st))"
    by (rule image_mono)
  then show ?thesis by (simp add: r_def)
next
  case Undefined
  then show ?thesis using assms by (simp add: updateOnBlockchain_graph_def Let_def ensure_keeps)
qed

text \<open>
  Claim C8. For every fingerprint that no ledger record carries (as is every fingerprint
  that no store or update operation computed, by the two lemmas above),
  \<open>searchPrescriptionByHash\<close> returns \<open>null\<close>. It cannot raise: its \<open>catch\<close> turns every
  error into \<open>null\<close>. The only change of state is the one-time initialisation of the
  driver.
\<close>

theorem unknown_fingerprint_not_found:
  "hash \<notin> record_hash ` snd ` set (ledger_records st) \<Longrightarrow>
     searchPrescriptionByHash db hash st = (None, ensureNeo4jInitialized db st)"
proof -
  assume a: "hash \<notin> record_hash ` snd ` set (ledger_records st)"
  have "find (\<lambda>r. record_hash r = hash) (js_values (ledger_records st)) = None"
    using a by (auto simp: find_None_iff set_js_values)
  then show ?thesis
    by (simp add: searchPrescriptionByHash_def getPrescriptionFromHash_def Let_def ensure_keeps)
qed

theorem unknown_fingerprint_not_found_witness:
  "js ''00000f62'' \<notin> record_hash ` snd ` set (ledger_records recorded_state)
   \<and> fst (searchPrescriptionByHash unreachable_database (js ''00000f62'') recorded_state) = None"
  using unknown_fingerprint_not_found [of "js ''00000f62''" recorded_state unreachable_database]
  by (simp add: recorded_state_def initial_graph_state_def js_def)


lemma storePrescriptionInGraph_hash:
  "\<exists>st'. (storePrescriptionInGraph db a p (generateHash f d) st = Resolved () st'
            \<or> storePrescriptionInGraph db a p (generateHash f d) st = Rejected RemoteError st')
         \<and> objects st' = objects st \<and> results st' = results st
         \<and> ledger_records st' = ledger_records st \<and> driver st' = driver st
         \<and> neo4jInitialized st' = neo4jInitialized st"
  by (simp add: storePrescriptionInGraph_def generateHash_not_proto)

lemma storeOnBlockchain_graph_Resolved:
  assumes "result_id (objects st ! a) \<noteq> js ''__proto__''"
  shows "\<exists>st'. storeOnBlockchain_graph db JSON_stringify a p st
                 = Resolved (result_id (objects st ! a)) st'
           \<and> objects st' = objects st \<and> results st' = results st
           \<and> map_of (ledger_records st') (result_id (objects st ! a)) \<noteq> None"
  using assms
  by (simp add: storeOnBlockchain_graph_def Let_def storePrescriptionInGraph_def
      generateHash_not_proto ensure_keeps map_of_js_put)

lemma analyzePrescription_graph_degraded:
  assumes "\<not> driver st"
      and "analyzePrescriptionWithRAG_vision JSON_parse (ai_reply env) = Inr a"
  shows "\<exists>st'. analyzePrescription_graph db JSON_parse JSON_stringify env formData st
                 = Resolved () st'
           \<and> map_of (results st') (analysisId env) = Some (length (objects st))
           \<and> originalPrescription (objects st' ! length (objects st))
               = form_prescription formData
           \<and> map_of (ledger_records st') (analysisId env) \<noteq> None"
proof -
  define n where "n = length (objects st)"
  define st1 where "st1 = st\<lparr>objects := objects st @ [new_result env formData a],
                             results := js_put (results st) (analysisId env) n\<rparr>"
  have obj: "objects st1 ! n = new_result env formData a"
    by (simp add: st1_def n_def)
  then have idn: "result_id (objects st1 ! n) = analysisId env" by (simp add: new_result_def)
  then have "result_id (objects st1 ! n) \<noteq> js ''__proto__''" by (simp add: analysisId_not_proto)
  then obtain st2 where s: "storeOnBlockchain_graph db JSON_stringify n (patient_of formData) st1
                 = Resolved (result_id (objects st1 ! n)) st2"
      and k: "objects st2 = objects st1" "results st2 = results st1"
      and led: "map_of (ledger_records st2) (result_id (objects st1 ! n)) \<noteq> None"
    using storeOnBlockchain_graph_Resolved by blast
  define st3 where "st3 = st2\<lparr>objects := (objects st2)
                                [n := (objects st2 ! n)\<lparr>blockchainStatus := js ''Recorded''\<rparr>]\<rparr>"
  have run: "analyzePrescription_graph db JSON_parse JSON_stringify env formData st = Resolved () st3"
    using assms s
    by (simp add: analyzePrescription_graph_def getPatientPrescriptionHistory_def Let_def
        n_def [symmetric] st1_def [symmetric] st3_def)
  have "map_of (results st3) (analysisId env) = Some n"
    using k by (simp add: st3_def st1_def map_of_js_put)
  moreover have "n < length (objects st2)" using k by (simp add: st1_def n_def)
  then have "originalPrescription (objects st3 ! n) = form_prescription formData"
    using k obj by (simp add: st3_def new_result_def)
  moreover have "map_of (ledger_records st3) (analysisId env) \<noteq> None"
    using led idn by (simp add: st3_def)
  ultimately show ?thesis using run unfolding n_def by blast
qed

text \<open>
  What holds of the degraded modes. When the driver is set and its query fails,
  \<open>getPatientHistory\<close> returns the empty list: its \<open>catch\<close> swallows the error.
\<close>

lemma getPatientHistory_query_failure:
  "driver st \<Longrightarrow> history_rows db (patient_name patientInfo) = Inl e \<Longrightarrow>
     getPatientHistory db patientInfo st = []"
  by (simp add: getPatientHistory_def getPatientPrescriptionHistory_def)

lemma analyze_vision_sample:
  "analyzePrescriptionWithRAG_vision sample_parse (Inr sample_reply_vision)
     = Inr sample_analysis_vision"
  by (simp add: analyzePrescriptionWithRAG_vision_def post_process_vision_sample
      sample_analysis_vision_def)

lemma sample_hashes:
  "generateHash sample_stringify
     (new_result (sample_env 1700000000000 ''k3x9q2a'' reply stamp) formData a) = js ''0b7ab230''"
  "generateHash sample_stringify
     (new_result (sample_env 1700000004000 ''p0d7m1z'' reply stamp) formData a) = js ''041051d8''"
  "generateHash sample_stringify
     (new_result (sample_env 1700000009000 ''w5t2c8e'' reply stamp) formData a) = js ''380466fc''"
  by (simp_all add: sample_stringify_def new_result_def analysisId_def sample_env_fields
      decimal.simps quoted_def hash_evals)

lemma analyzePrescription_graph_sample:
  assumes "\<not> driver st"
  shows "analyzePrescription_graph no_driver_database sample_parse sample_stringify
       (sample_env ms suffix sample_reply_vision stamp) formData st =
     (let env = sample_env ms suffix sample_reply_vision stamp;
          result = new_result env formData sample_analysis_vision
      in Resolved ()
           \<lparr>objects = objects st @ [result\<lparr>blockchainStatus := js ''Recorded''\<rparr>],
            results = js_put (results st) (analysisId env) (length (objects st)),
            ledger_records =
              js_put (ledger_records st) (analysisId env)
                \<lparr>record_id = Some (analysisId env), record_timestamp = js stamp,
                 record_status = Valid, record_hash = generateHash sample_stringify result,
                 record_data = \<lparr>data_status = Valid, issuesCount = 0, suggestionsCount = 0\<rparr>\<rparr>,
            neo4jInitialized = True,
            driver = False,
            mockGraphData =
              js_put (mockGraphData st) (generateHash sample_stringify result)
                \<lparr>entry_result = length (objects st), entry_patientInfo = patient_of formData\<rparr>\<rparr>)"
  using assms
  by (simp add: analyzePrescription_graph_def getPatientPrescriptionHistory_def
      analyze_vision_sample sample_env_fields Let_def storeOnBlockchain_graph_def
      ensureNeo4jInitialized_def initNeo4j_def no_driver_database_def storePrescriptionInGraph_def
      generateHash_not_proto analysisId_not_proto new_result_def ledger_data_of_def
      count_or_zero_def sample_analysis_vision_def sample_analysis_def)


lemma initial_graph_fields:
  "objects initial_graph_state = []" "results initial_graph_state = []"
  "ledger_records initial_graph_state = []" "mockGraphData initial_graph_state = []"
  "\<not> driver initial_graph_state" "\<not> neo4jInitialized initial_graph_state"
  by (simp_all add: initial_graph_state_def)

lemma unreachable_first_submission:
  assumes "\<not> driver st" and "\<not> neo4jInitialized st"
  shows "analyzePrescription_graph unreachable_database sample_parse sample_stringify
       (sample_env ms suffix sample_reply_vision stamp) formData st =
     (let env = sample_env ms suffix sample_reply_vision stamp;
          result = new_result env formData sample_analysis_vision
      in Resolved ()
           \<lparr>objects = objects st @ [result\<lparr>blockchainStatus := js ''Recorded''\<rparr>],
            results = js_put (results st) (analysisId env) (length (objects st)),
            ledger_records =
              js_put (ledger_records st) (analysisId env)
                \<lparr>record_id = Some (analysisId env), record_timestamp = js stamp,
                 record_status = Valid, record_hash = generateHash sample_stringify result,
                 record_data = \<lparr>data_status = Valid, issuesCount = 0, suggestionsCount = 0\<rparr>\<rparr>,
            neo4jInitialized = True,
            driver = True,
            mockGraphData = mockGraphData st\<rparr>)"
  using assms
  by (simp add: analyzePrescription_graph_def getPatientPrescriptionHistory_def
      analyze_vision_sample sample_env_fields Let_def storeOnBlockchain_graph_def
      ensureNeo4jInitialized_def initNeo4j_def unreachable_database_def storePrescriptionInGraph_def
      analysisId_not_proto new_result_def ledger_data_of_def
      count_or_zero_def sample_analysis_vision_def sample_analysis_def)

lemma submission_fails_with_driver:
  "driver st \<Longrightarrow>
     analyzePrescription_graph unreachable_database JSON_parse JSON_stringify env formData st
       = Rejected FailedToAnalyzePrescription st"
  by (simp add: analyzePrescription_graph_def getPatientPrescriptionHistory_def
      unreachable_database_def)

text \<open>
  Claim C4 where the server is unreachable: \<open>neo4j.driver\<close> returns a driver,
  \<open>verifyConnectivity\<close> rejects and every query fails. The driver is not \<open>null\<close> after the
  failed connection: \<open>initNeo4j\<close> has assigned it before \<open>verifyConnectivity\<close> rejected, and
  its \<open>catch\<close> does not reset it. The first submission resolves, since it reads the history
  before the connection is tried, and leaves the driver set with nothing in the fallback
  map. From then on \<open>getPatientHistory\<close> returns the empty list, as the claim says, but
  the next submission, whose AI reply passes the schema, fails with
  \<open>Failed to analyze prescription\<close> and stores nothing, where the claim has it complete
  with the local results store and the ledger stub only: \<open>getPatientPrescriptionHistory\<close>
  skips the fallback, its query throws, and the \<open>catch\<close> of \<open>analyzePrescription\<close> takes
  over.
\<close>

theorem unreachable_server_submit_fails:
  "\<not> driver initial_graph_state
   \<and> (case analyzePrescription_graph unreachable_database sample_parse sample_stringify
           (sample_env 1700000000000 ''k3x9q2a'' sample_reply_vision ''2023-11-14T22:13:20.000Z'')
           (sample_form ''Alice'' ''Lisinopril 10mg once daily'') initial_graph_state of
         Resolved _ st' \<Rightarrow>
           driver st' \<and> mockGraphData st' = []
           \<and> getPatientHistory unreachable_database (sample_patient ''Bob'') st' = []
           \<and> analyzePrescriptionWithRAG_vision sample_parse
               (ai_reply (sample_env 1700000004000 ''p0d7m1z'' sample_reply_vision
                   ''2023-11-14T22:13:24.000Z''))
               = Inr sample_analysis_vision
           \<and> analyzePrescription_graph unreachable_database sample_parse sample_stringify
               (sample_env 1700000004000 ''p0d7m1z'' sample_reply_vision ''2023-11-14T22:13:24.000Z'')
               (sample_form ''Bob'' ''Metformin 500mg twice daily'') st'
               = Rejected FailedToAnalyzePrescription st'
       | _ \<Rightarrow> False)"
proof -
  have "history_rows unreachable_database name = Inl RemoteError" for name
    by (simp add: unreachable_database_def)
  then show ?thesis
    by (simp add: unreachable_first_submission initial_graph_fields Let_def
        submission_fails_with_driver getPatientHistory_def getPatientPrescriptionHistory_def
        sample_env_fields analyze_vision_sample)
qed

lemma analysisId_sample_last:
  "analysisId (sample_env 1700000009000 ''w5t2c8e'' reply stamp) = js ''rx-1700000009000-w5t2c8e''"
  by (simp add: analysisId_def sample_env_fields decimal.simps js_def)

lemma sample_keys_differ:
  "js ''rx-1700000000000-k3x9q2a'' \<noteq> js ''rx-1700000004000-p0d7m1z''"
  "js ''rx-1700000000000-k3x9q2a'' \<noteq> js ''rx-1700000009000-w5t2c8e''"
  "js ''rx-1700000004000-p0d7m1z'' \<noteq> js ''rx-1700000009000-w5t2c8e''"
  "js ''0b7ab230'' \<noteq> js ''041051d8''"
  "js ''0b7ab230'' \<noteq> js ''380466fc''"
  "js ''041051d8'' \<noteq> js ''380466fc''"
  by (simp_all add: js_def)

lemma sample_hash_keys:
  "array_index (js ''0b7ab230'') = None"
  "array_index (js ''041051d8'') = None"
  "array_index (js ''380466fc'') = None"
  by (simp_all add: array_index_def js_def is_digit_def)

text \<open>
  Claim C3 in the fallback mode. \<open>getPatientPrescriptionHistory\<close> does not read
  \<open>patientInfo\<close> there and does not sort: after the submissions of Alice, Bob and Alice
  again, the history asked for Alice holds Bob's prescription as well, oldest first.
  The query of the connected mode matches the patient's name and orders by timestamp,
  descending; the fallback does neither.
\<close>

theorem fallback_history_ignores_patient:
  "map_option
     (\<lambda>st. map_sum id (map (\<lambda>r. (originalPrescription r, timestamp r)))
        (getPatientPrescriptionHistory no_driver_database (sample_patient ''Alice'') st))
     (graph_submissions no_driver_database sample_parse sample_stringify
        [(sample_env 1700000000000 ''k3x9q2a'' sample_reply_vision ''2023-11-14T22:13:20.000Z'',
          sample_form ''Alice'' ''Lisinopril 10mg once daily''),
         (sample_env 1700000004000 ''p0d7m1z'' sample_reply_vision ''2023-11-14T22:13:24.000Z'',
          sample_form ''Bob'' ''Metformin 500mg twice daily''),
         (sample_env 1700000009000 ''w5t2c8e'' sample_reply_vision ''2023-11-14T22:13:29.000Z'',
          sample_form ''Alice'' ''Atorvastatin 20mg at night'')]
        initial_graph_state)
   = Some (Inr [(js ''Lisinopril 10mg once daily'', js ''2023-11-14T22:13:20.000Z''),
                (js ''Metformin 500mg twice daily'', js ''2023-11-14T22:13:24.000Z''),
                (js ''Atorvastatin 20mg at night'', js ''2023-11-14T22:13:29.000Z'')])"
  by (simp add: analyzePrescription_graph_sample initial_graph_fields Let_def sample_hashes
      analysisId_sample analysisId_sample_later analysisId_sample_last sample_keys_differ
      sample_hash_keys getPatientPrescriptionHistory_def js_values_def js_entries_def)
    (simp add: new_result_def sample_form_def sample_env_fields)

end
